theory Spec2Isabelle
  imports Complex_Main
begin

section \<open>Strings and numbers of the source language\<close>

text \<open>
  A JavaScript string is a sequence of UTF-16 code units; \<open>length\<close>, \<open>slice\<close>, \<open>trim\<close>
  and the regular expressions of the program all work on code units. A code unit is a
  natural number here, a string a list of them, and \<open>ascii\<close> turns a literal of the
  theory into such a list.

  Numbers of the program are IEEE doubles. Scores are modelled as exact real numbers and
  clock readings and counters as integers and naturals. The general statements proved
  below are about clamping, rounding to hundredths, ordering and counting; the scores
  evaluated on concrete texts are sums of multiples of 0.01, away from every rounding
  boundary.
\<close>

type_synonym jschar = nat
type_synonym jsstring = "jschar list"

definition ascii :: "string \<Rightarrow> jsstring" where
  "ascii s = map of_char s"

section \<open>Result cache (LRUCache)\<close>

text \<open>
  \<open>CacheEntry<T>\<close> and the private fields of \<open>LRUCache<T>\<close>. The \<open>Map\<close> of the class
  iterates in insertion order and the eviction relies on that order, so it is an
  association list, oldest insertion first.
\<close>

record 'v CacheEntry =
  key :: jsstring
  val :: 'v
  timestamp :: int
  ttl :: int
  accessCount :: nat
  lastAccessed :: int

record 'v LRUCache =
  cache :: "(jsstring \<times> 'v CacheEntry) list"
  maxSize :: int
  defaultTTL :: int
  hits :: nat
  misses :: nat

text \<open>The operations of a JavaScript \<open>Map\<close> that the class uses.\<close>

definition map_has :: "jsstring \<Rightarrow> (jsstring \<times> 'a) list \<Rightarrow> bool" where
  "map_has k m = (map_of m k \<noteq> None)"

definition map_delete :: "jsstring \<Rightarrow> (jsstring \<times> 'a) list \<Rightarrow> (jsstring \<times> 'a) list" where
  "map_delete k m = filter (\<lambda>p. fst p \<noteq> k) m"

definition map_set :: "jsstring \<Rightarrow> 'a \<Rightarrow> (jsstring \<times> 'a) list \<Rightarrow> (jsstring \<times> 'a) list" where
  "map_set k v m =
     (if map_has k m then map (\<lambda>p. if fst p = k then (k, v) else p) m else m @ [(k, v)])"

definition new_LRUCache :: "int \<Rightarrow> int \<Rightarrow> 'v LRUCache" where
  "new_LRUCache size_limit default_ttl =
     \<lparr>cache = [], maxSize = size_limit, defaultTTL = default_ttl, hits = 0, misses = 0\<rparr>"

text \<open>
  \<open>get(key)\<close>. The clock reading \<open>now\<close> stands for \<open>Date.now()\<close>; the method reads the
  clock for the expiry test and again for \<open>lastAccessed\<close>, taken as one instant here.
  The result \<open>None\<close> is the \<open>null\<close> of the source.
\<close>

definition get :: "int \<Rightarrow> jsstring \<Rightarrow> 'v LRUCache \<Rightarrow> 'v option \<times> 'v LRUCache" where
  "get now k c =
     (case map_of (cache c) k of
        None \<Rightarrow> (None, c\<lparr>misses := misses c + 1\<rparr>)
      | Some entry \<Rightarrow>
          if now - timestamp entry > ttl entry
          then (None, c\<lparr>cache := map_delete k (cache c), misses := misses c + 1\<rparr>)
          else
            let entry' = entry\<lparr>lastAccessed := now, accessCount := accessCount entry + 1\<rparr>
            in (Some (val entry'),
                c\<lparr>cache := map_set k entry' (map_delete k (cache c)), hits := hits c + 1\<rparr>))"

text \<open>
  \<open>set(key, value, ttl?)\<close>. An omitted \<open>ttl\<close> is \<open>None\<close>; \<open>ttl || this.defaultTTL\<close> also
  replaces a \<open>ttl\<close> of zero. \<open>firstKey\<close> is the first key in insertion order, and
  \<open>if (firstKey)\<close> is the truthiness test of the source: \<open>undefined\<close> (empty map) and the
  empty string are both falsy.
\<close>

definition actualTTL :: "int option \<Rightarrow> 'v LRUCache \<Rightarrow> int" where
  "actualTTL t c = (case t of None \<Rightarrow> defaultTTL c | Some n \<Rightarrow> if n = 0 then defaultTTL c else n)"

definition evict_first :: "(jsstring \<times> 'a) list \<Rightarrow> (jsstring \<times> 'a) list" where
  "evict_first m =
     (case m of
        [] \<Rightarrow> m
      | p # _ \<Rightarrow> if fst p \<noteq> [] then map_delete (fst p) m else m)"

definition set_entry :: "int \<Rightarrow> jsstring \<Rightarrow> 'v \<Rightarrow> int option \<Rightarrow> 'v LRUCache \<Rightarrow> 'v LRUCache" where
  "set_entry now k v t c =
     (let m1 = (if int (length (cache c)) \<ge> maxSize c \<and> \<not> map_has k (cache c)
                then evict_first (cache c) else cache c);
          m2 = (if map_has k m1 then map_delete k m1 else m1);
          entry = \<lparr>key = k, val = v, timestamp = now, ttl = actualTTL t c,
                   accessCount = 1, lastAccessed = now\<rparr>
      in c\<lparr>cache := map_set k entry m2\<rparr>)"

text \<open>\<open>has(key)\<close>: an existence probe that drops an expired entry.\<close>

definition has :: "int \<Rightarrow> jsstring \<Rightarrow> 'v LRUCache \<Rightarrow> bool \<times> 'v LRUCache" where
  "has now k c =
     (case map_of (cache c) k of
        None \<Rightarrow> (False, c)
      | Some entry \<Rightarrow>
          if now - timestamp entry > ttl entry
          then (False, c\<lparr>cache := map_delete k (cache c)\<rparr>)
          else (True, c))"

text \<open>\<open>delete(key)\<close> returns what \<open>Map.delete\<close> returns: whether the key was there.\<close>

definition delete :: "jsstring \<Rightarrow> 'v LRUCache \<Rightarrow> bool \<times> 'v LRUCache" where
  "delete k c = (map_has k (cache c), c\<lparr>cache := map_delete k (cache c)\<rparr>)"

definition clear :: "'v LRUCache \<Rightarrow> 'v LRUCache" where
  "clear c = c\<lparr>cache := [], hits := 0, misses := 0\<rparr>"

definition keys :: "'v LRUCache \<Rightarrow> jsstring list" where
  "keys c = map fst (cache c)"

definition size_of :: "'v LRUCache \<Rightarrow> nat" where
  "size_of c = length (cache c)"

text \<open>\<open>cleanup()\<close>: the new map and the number of entries removed.\<close>

definition cleanup :: "int \<Rightarrow> 'v LRUCache \<Rightarrow> nat \<times> 'v LRUCache" where
  "cleanup now c =
     (let expired = (\<lambda>p. now - timestamp (snd p) > ttl (snd p))
      in (length (filter expired (cache c)),
          c\<lparr>cache := filter (\<lambda>p. \<not> expired p) (cache c)\<rparr>))"

text \<open>
  \<open>getStats()\<close>, without the memory estimate (the length of a JSON rendering of the
  entries, which no statement below reads). \<open>Math.round\<close> rounds half up.
\<close>

definition math_round :: "real \<Rightarrow> int" where
  "math_round x = \<lfloor>x + 1 / 2\<rfloor>"



subsection \<open>Two concrete runs of the cache\<close>


definition two_in_capacity_one :: "nat LRUCache" where
  "two_in_capacity_one =
     set_entry 1 (ascii ''a'') 2 None (set_entry 0 (ascii '''') 1 None (new_LRUCache 1 1000))"

section \<open>Text primitives\<close>

text \<open>
  White space is what \<open>String.prototype.trim\<close> strips and what \<open>\s\<close> matches: the
  WhiteSpace and LineTerminator code points. \<open>\d\<close> is an ASCII digit and \<open>\w\<close>, which
  decides the word boundary \<open>\b\<close>, an ASCII letter, a digit or the underscore.
\<close>

definition is_space :: "jschar \<Rightarrow> bool" where
  "is_space c = (c \<in> set [9, 10, 11, 12, 13, 32, 160, 5760, 8232, 8233, 8239, 8287, 12288, 65279]
                 \<or> (8192 \<le> c \<and> c \<le> 8202))"

definition is_digit :: "jschar \<Rightarrow> bool" where
  "is_digit c = (48 \<le> c \<and> c \<le> 57)"

definition is_word :: "jschar \<Rightarrow> bool" where
  "is_word c = ((48 \<le> c \<and> c \<le> 57) \<or> (65 \<le> c \<and> c \<le> 90) \<or> c = 95 \<or> (97 \<le> c \<and> c \<le> 122))"

text \<open>
  Every regular expression of the program that contains a letter carries the flag \<open>i\<close>.
  Without the flag \<open>u\<close> two code units match under \<open>i\<close> when their canonical forms agree,
  and the canonical form never maps a code unit above 127 to one below 128; every
  letter in the patterns is ASCII, so a pattern letter matches exactly its two ASCII
  cases and \<open>canon\<close> is the canonical form as far as the patterns can tell. On the other
  pattern characters (\<open>-\<close>, \<open>*\<close>, \<open>#\<close>, \<open>.\<close>, \<open>%\<close>, space, U+2022, U+2013) it is exact
  comparison.
\<close>

definition canon :: "jschar \<Rightarrow> jschar" where
  "canon c = (if 97 \<le> c \<and> c \<le> 122 then c - 32 else c)"

definition trim :: "jsstring \<Rightarrow> jsstring" where
  "trim s = rev (dropWhile is_space (rev (dropWhile is_space s)))"

fun js_join :: "jsstring \<Rightarrow> jsstring list \<Rightarrow> jsstring" where
  "js_join sep [] = []"
| "js_join sep [x] = x"
| "js_join sep (x # y # ys) = x @ sep @ js_join sep (y # ys)"

text \<open>
  \<open>s.split(c)\<close> for a one-character separator, \<open>s.split(/\r?\n/)\<close>, and \<open>s.split(/[...]+/)\<close>
  for a character class repeated greedily: the pieces between the separators, an empty
  piece included where the string starts or ends with one.
\<close>

fun split_char :: "jschar \<Rightarrow> jsstring \<Rightarrow> jsstring \<Rightarrow> jsstring list" where
  "split_char sep cur [] = [rev cur]"
| "split_char sep cur (c # cs) =
     (if c = sep then rev cur # split_char sep [] cs else split_char sep (c # cur) cs)"

fun split_newline :: "jsstring \<Rightarrow> jsstring \<Rightarrow> jsstring list" where
  "split_newline cur [] = [rev cur]"
| "split_newline cur [c] = (if c = 10 then [rev cur, []] else [rev (c # cur)])"
| "split_newline cur (c # d # ds) =
     (if c = 10 then rev cur # split_newline [] (d # ds)
      else if c = 13 \<and> d = 10 then rev cur # split_newline [] ds
      else split_newline (c # cur) (d # ds))"

fun split_runs :: "(jschar \<Rightarrow> bool) \<Rightarrow> bool \<Rightarrow> jsstring \<Rightarrow> jsstring \<Rightarrow> jsstring list" where
  "split_runs sep in_sep cur [] = [rev cur]"
| "split_runs sep in_sep cur (c # cs) =
     (if sep c then (if in_sep then split_runs sep True [] cs
                     else rev cur # split_runs sep True [] cs)
      else split_runs sep False (c # cur) cs)"

text \<open>\<open>getWordCount\<close> (utils/formatting): \<open>!text\<close> holds of the empty string.\<close>

definition getWordCount :: "jsstring \<Rightarrow> nat" where
  "getWordCount text =
     (if text = [] then 0
      else length (filter (\<lambda>w. length w > 0) (split_runs is_space False [] (trim text))))"

section \<open>Regular expressions\<close>

text \<open>
  The patterns of the program use literals, bracket classes, \<open>\d\<close>, \<open>\s\<close>, greedy
  repetition of a single character class (\<open>?\<close>, \<open>*\<close>, \<open>+\<close>, \<open>{m,n}\<close>), alternation,
  grouping and \<open>\b\<close>. A position in the subject is the code unit before it, if any, and
  the rest of the string. \<open>ends r p\<close> lists the positions at which a match of \<open>r\<close>
  starting at \<open>p\<close> can end, in the order in which the backtracking matcher of the
  language tries them: the head of the list is where the match ends.
\<close>

datatype cc = Ch jschar | OneOf "jschar list" | Dig | Spc

datatype rx =
    Str string
  | Rep cc nat "nat option"
  | Alt "rx list"
  | Cat "rx list"
  | WordB

type_synonym pos = "jschar option \<times> jsstring"

definition in_cc :: "cc \<Rightarrow> jschar \<Rightarrow> bool" where
  "in_cc k c = (case k of
       Ch p \<Rightarrow> canon c = canon p
     | OneOf ps \<Rightarrow> canon c \<in> set (map canon ps)
     | Dig \<Rightarrow> is_digit c
     | Spc \<Rightarrow> is_space c)"

fun match_lit :: "jsstring \<Rightarrow> jschar option \<Rightarrow> jsstring \<Rightarrow> pos list" where
  "match_lit [] prev rest = [(prev, rest)]"
| "match_lit (p # ps) prev [] = []"
| "match_lit (p # ps) prev (c # cs) =
     (if canon c = canon p then match_lit ps (Some c) cs else [])"

text \<open>
  Greedy repetition of a class, at most \<open>hi\<close> times: the positions after \<open>k, k - 1, ..., 0\<close>
  repetitions, where \<open>k\<close> is the longest run available.
\<close>

fun reps :: "cc \<Rightarrow> nat option \<Rightarrow> jschar option \<Rightarrow> jsstring \<Rightarrow> pos list" where
  "reps k hi prev [] = [(prev, [])]"
| "reps k hi prev (c # cs) =
     (if in_cc k c \<and> hi \<noteq> Some 0
      then reps k (map_option (\<lambda>n. n - 1) hi) (Some c) cs @ [(prev, c # cs)]
      else [(prev, c # cs)])"

definition at_boundary :: "pos \<Rightarrow> bool" where
  "at_boundary p =
     ((case fst p of None \<Rightarrow> False | Some a \<Rightarrow> is_word a)
      \<noteq> (case snd p of [] \<Rightarrow> False | b # _ \<Rightarrow> is_word b))"

fun ends :: "rx \<Rightarrow> pos \<Rightarrow> pos list"
  and ends_cat :: "rx list \<Rightarrow> pos \<Rightarrow> pos list"
  and ends_alt :: "rx list \<Rightarrow> pos \<Rightarrow> pos list" where
  "ends (Str s) p = match_lit (ascii s) (fst p) (snd p)"
| "ends (Rep k lo hi) p =
     (let l = reps k hi (fst p) (snd p) in take (length l - lo) l)"
| "ends (Alt rs) p = ends_alt rs p"
| "ends (Cat rs) p = ends_cat rs p"
| "ends WordB p = (if at_boundary p then [p] else [])"
| "ends_cat [] p = [p]"
| "ends_cat (r # rs) p = concat (map (ends_cat rs) (ends r p))"
| "ends_alt [] p = []"
| "ends_alt (r # rs) p = ends r p @ ends_alt rs p"

text \<open>
  \<open>exec\<close> is the search of \<open>RegExp.prototype.exec\<close> from a position onward: the leftmost
  start at which the pattern matches, and there the first end the matcher finds.
\<close>

fun exec :: "rx \<Rightarrow> jschar option \<Rightarrow> jsstring \<Rightarrow> pos option" where
  "exec r prev [] = (case ends r (prev, []) of [] \<Rightarrow> None | e # _ \<Rightarrow> Some e)"
| "exec r prev (c # cs) =
     (case ends r (prev, c # cs) of [] \<Rightarrow> exec r (Some c) cs | e # _ \<Rightarrow> Some e)"

text \<open>
  \<open>rx.test(s)\<close> for a pattern without the flag \<open>g\<close>, and for a regular expression object
  created by a literal inside the function that tests it (a fresh object at every
  evaluation, \<open>lastIndex\<close> zero): the search starts at the beginning of the string.
\<close>

definition test :: "rx \<Rightarrow> jsstring \<Rightarrow> bool" where
  "test r s = (exec r None s \<noteq> None)"

text \<open>
  \<open>rx.test(s)\<close> for a regular expression object with the flag \<open>g\<close> that outlives the
  call. The object carries \<open>lastIndex\<close>: the search starts there, a match stores the
  index of its end, a failure (or a \<open>lastIndex\<close> beyond the string) stores zero.
\<close>

definition prev_at :: "jsstring \<Rightarrow> nat \<Rightarrow> jschar option" where
  "prev_at s i = (if i = 0 then None else Some (s ! (i - 1)))"

definition test_g :: "rx \<Rightarrow> nat \<Rightarrow> jsstring \<Rightarrow> bool \<times> nat" where
  "test_g r lastIndex s =
     (if lastIndex > length s then (False, 0)
      else case exec r (prev_at s lastIndex) (drop lastIndex s) of
             None \<Rightarrow> (False, 0)
           | Some e \<Rightarrow> (True, length s - length (snd e)))"

text \<open>
  \<open>(s.match(rx) || []).length\<close> for a pattern with the flag \<open>g\<close>: \<open>match\<close> resets
  \<open>lastIndex\<close> and collects the matches from left to right, each search starting where
  the previous match ended (one further after an empty match). \<open>skip\<close> counts the code
  units still covered by the previous match.
\<close>

fun count_from :: "rx \<Rightarrow> nat \<Rightarrow> jschar option \<Rightarrow> jsstring \<Rightarrow> nat" where
  "count_from r skip prev [] =
     (if skip = 0 \<and> ends r (prev, []) \<noteq> [] then 1 else 0)"
| "count_from r skip prev (c # cs) =
     (if skip > 0 then count_from r (skip - 1) (Some c) cs
      else case ends r (prev, c # cs) of
             [] \<Rightarrow> count_from r 0 (Some c) cs
           | e # _ \<Rightarrow> 1 + count_from r (length cs - length (snd e)) (Some c) cs)"

definition match_count :: "rx \<Rightarrow> jsstring \<Rightarrow> nat" where
  "match_count r s = count_from r 0 None s"

text \<open>
  \<open>s.match(rx)\<close> for a pattern without \<open>g\<close> that starts with a capture group: the text
  of the group in the leftmost match. The group's ends are tried in order until the
  rest of the pattern matches behind one.
\<close>

fun exec_group :: "rx \<Rightarrow> rx \<Rightarrow> jschar option \<Rightarrow> jsstring \<Rightarrow> jsstring option" where
  "exec_group g r prev [] =
     (case filter (\<lambda>e. ends r e \<noteq> []) (ends g (prev, [])) of
        [] \<Rightarrow> None | e # _ \<Rightarrow> Some [])"
| "exec_group g r prev (c # cs) =
     (case filter (\<lambda>e. ends r e \<noteq> []) (ends g (prev, c # cs)) of
        [] \<Rightarrow> exec_group g r (Some c) cs
      | e # _ \<Rightarrow> Some (take (length (c # cs) - length (snd e)) (c # cs)))"

text \<open>Shorthands for writing the patterns down as the source has them.\<close>

definition opt :: "cc \<Rightarrow> rx" where
  "opt k = Rep k 0 (Some 1)"

definition some :: "cc \<Rightarrow> rx" where
  "some k = Rep k 1 None"

definition many :: "cc \<Rightarrow> rx" where
  "many k = Rep k 0 None"

definition single :: "cc \<Rightarrow> rx" where
  "single k = Rep k 1 (Some 1)"

definition chr :: "string \<Rightarrow> cc" where
  "chr s = OneOf (ascii s)"

definition bword :: "rx list \<Rightarrow> rx" where
  "bword rs = Cat ([WordB] @ rs @ [WordB])"

definition bwords :: "string list \<Rightarrow> rx" where
  "bwords ws = Cat [WordB, Alt (map Str ws), WordB]"

definition ch :: "char \<Rightarrow> cc" where
  "ch c = Ch (of_char c)"

definition plural :: "string \<Rightarrow> rx" where
  "plural w = Cat [Str w, opt (ch CHR ''s'')]"

section \<open>Pattern library (config/patterns.config)\<close>

definition VAGUE_WORDS :: "rx list" where
  "VAGUE_WORDS =
     [bword [Str ''optimi'', single (chr ''sz''), Str ''e'', opt (chr ''ds'')],
      bword [Str ''better''],
      bword [Str ''quickly''],
      bword [Str ''improve'', opt (chr ''ds'')],
      bword [Str ''nice''],
      bword [Str ''good''],
      bword [Str ''clean''],
      bword [Str ''efficient''],
      bword [Str ''simple''],
      bword [Str ''easy''],
      bword [Str ''fast''],
      bword [Str ''smooth''],
      bword [Str ''pretty''],
      bword [Str ''quite''],
      bword [Str ''very''],
      bword [Str ''really''],
      bword [Str ''somewhat''],
      bword [Str ''rather''],
      bword [Str ''basically''],
      bword [Str ''obviously''],
      bword [Str ''clearly'']]"

definition CLARITY_INDICATORS :: "rx list" where
  "CLARITY_INDICATORS =
     [bword [Str ''specifically''],
      bword [Str ''exactly''],
      bword [Str ''must''],
      bword [Str ''shall''],
      bword [Str ''required''],
      bword [Str ''mandatory''],
      bword [Str ''will''],
      bword [Str ''should''],
      bword [Str ''precisely''],
      bword [Str ''explicitly''],
      bword [Str ''defined as''],
      bword [Str ''measured by''],
      bword [Str ''strictly''],
      bword [Str ''compulsory'']]"

definition COMPLETENESS_INDICATORS :: "rx list" where
  "COMPLETENESS_INDICATORS =
     [bword [Str ''input''],
      bword [Str ''output''],
      bword [Str ''format''],
      bword [plural ''constraint''],
      bword [plural ''limit''],
      bword [plural ''step''],
      bword [Str ''process''],
      bword [plural ''method''],
      bword [plural ''workflow''],
      bword [plural ''pipeline''],
      bword [plural ''requirement''],
      bword [plural ''specification''],
      bword [plural ''parameter''],
      bword [Str ''criteria'']]"

definition CONCRETE_VERBS :: "rx list" where
  "CONCRETE_VERBS =
     [bword [Str ''create'', opt (chr ''ds'')],
      bword [Str ''generate'', opt (chr ''ds'')],
      bword [Str ''write'', opt (chr ''ns'')],
      bword [Str ''analyze'', opt (chr ''ds'')],
      bword [Str ''compare'', opt (chr ''ds'')],
      bword [Str ''list'', opt (chr ''s'')],
      bword [Str ''summari'', single (chr ''sz''), Str ''e'', opt (chr ''ds'')],
      bword [Str ''extract'', opt (chr ''s'')],
      bword [Str ''identify''],
      bword [Str ''calculate'', opt (chr ''ds'')],
      bword [Str ''implement'', opt (chr ''s'')],
      bword [Str ''design'', opt (chr ''s'')]]"

text \<open>The second class of the third pattern holds the hyphen and the en dash U+2013.\<close>

definition measurement_units :: rx where
  "measurement_units =
     Alt [plural ''word'', plural ''character'', plural ''minute'', plural ''hour'',
          plural ''day'', Str ''%'', Str ''percent'', plural ''item'', plural ''step'']"

definition MEASUREMENT_PATTERNS :: "rx list" where
  "MEASUREMENT_PATTERNS =
     [Cat [WordB, some Dig, many Spc, measurement_units, WordB],
      Cat [WordB, Alt [Str ''approximately'', Str ''about'', Str ''roughly''], some Spc, some Dig],
      Cat [WordB, some Dig, single (OneOf [45, 8211]), some Dig, many Spc,
           Alt [plural ''word'', plural ''item'', plural ''step'']],
      Cat [WordB, Alt [Str ''less than'', Str ''more than'', Str ''at least'', Str ''up to''],
           some Spc, some Dig]]"

text \<open>
  The four structure patterns, each with the flag \<open>g\<close>: bullets (hyphen, U+2022,
  asterisk), numbered lists, markdown headers, sequence words.
\<close>

definition structure_bullets :: rx where
  "structure_bullets = Cat [single (OneOf [45, 8226, 42]), some Spc]"

definition structure_numbered :: rx where
  "structure_numbered = Cat [some Dig, Str ''.'', some Spc]"

definition structure_headers :: rx where
  "structure_headers = Cat [Rep (ch CHR ''#'') 1 (Some 6), some Spc]"

definition structure_sequence :: rx where
  "structure_sequence = bwords [''first'', ''second'', ''third'', ''then'', ''next'', ''finally'']"

definition STRUCTURE_PATTERNS :: "rx list" where
  "STRUCTURE_PATTERNS =
     [structure_bullets, structure_numbered, structure_headers, structure_sequence]"

definition QUESTION_WORDS :: rx where
  "QUESTION_WORDS = bwords [''what'', ''how'', ''why'', ''when'', ''where'', ''which'', ''who'']"

definition DOMAIN_PATTERNS :: "(string \<times> rx list) list" where
  "DOMAIN_PATTERNS =
     [(''code'',
         [bwords [''function'', ''class'', ''method'', ''variable'', ''API'', ''endpoint'',
                  ''database'', ''framework''],
          bwords [''implement'', ''deploy'', ''debug'', ''test'', ''refactor'', ''optimize''],
          bwords [''TypeScript'', ''JavaScript'', ''Python'', ''React'', ''Node.js'', ''SQL'']]),
      (''docs'',
         [bwords [''documentation'', ''guide'', ''tutorial'', ''reference'', ''manual'', ''FAQ''],
          bwords [''section'', ''chapter'', ''appendix'', ''glossary'', ''index''],
          bwords [''explain'', ''describe'', ''outline'', ''summarize'']]),
      (''product'',
         [bwords [''feature'', ''requirement'', ''user story'', ''acceptance criteria'', ''MVP''],
          bwords [''stakeholder'', ''customer'', ''user'', ''persona'', ''journey''],
          bwords [''prioritize'', ''roadmap'', ''milestone'', ''release'', ''sprint'']]),
      (''research'',
         [bwords [''hypothesis'', ''methodology'', ''analysis'', ''findings'', ''conclusion''],
          bwords [''data'', ''sample'', ''statistical'', ''correlation'', ''significance''],
          bwords [''study'', ''experiment'', ''survey'', ''interview'', ''observation'']])]"

text \<open>
  \<open>DOMAIN_PATTERNS\<close> and \<open>DOMAIN_CONFIGS\<close> are object literals, and \<open>obj[domain]\<close> also
  finds what an object inherits from \<open>Object.prototype\<close>. Under these twelve names the
  lookup yields a function (or, for \<open>__proto__\<close>, the prototype object): a truthy value
  that is no array and has none of the configuration fields.
\<close>

definition object_prototype_keys :: "string list" where
  "object_prototype_keys =
     [''constructor'', ''__defineGetter__'', ''__defineSetter__'', ''hasOwnProperty'',
      ''__lookupGetter__'', ''__lookupSetter__'', ''isPrototypeOf'', ''propertyIsEnumerable'',
      ''toString'', ''valueOf'', ''__proto__'', ''toLocaleString'']"

text \<open>
  \<open>getDomainPatterns\<close>: the empty list without a domain or for an unknown one, the
  domain's patterns for a known one, and \<open>Inl\<close> for the value that is no array.
\<close>

datatype not_an_array = Inherited_property

definition getDomainPatterns :: "jsstring option \<Rightarrow> not_an_array + rx list" where
  "getDomainPatterns dmn =
     (case dmn of
        None \<Rightarrow> Inr []
      | Some d \<Rightarrow>
          if d = [] then Inr []
          else (case map_of (map (\<lambda>p. (ascii (fst p), snd p)) DOMAIN_PATTERNS) d of
                  Some ps \<Rightarrow> Inr ps
                | None \<Rightarrow> if d \<in> set (map ascii object_prototype_keys)
                          then Inl Inherited_property else Inr []))"

section \<open>Scoring configuration (config/scoring.config)\<close>

record ClarityConfig =
  baseScore :: real
  proportionalScoring :: bool
  vagueWordPenalty :: real
  maxVagueWordPenalty :: real
  clarityIndicatorBonus :: real
  maxClarityIndicatorBonus :: real
  measurementBonus :: real
  maxMeasurementBonus :: real
  verbBonus :: real
  maxVerbBonus :: real
  minSentenceLength :: nat
  sentenceLengthThreshold1 :: real
  sentenceLengthThreshold2 :: real
  longSentencePenalty1 :: real
  longSentencePenalty2 :: real
  structureBonus :: real

text \<open>The base score of the completeness section is \<open>baseScore\<close> in the source as well.\<close>

record CompletenessConfig =
  baseScore_c :: real
  titleBonus :: real
  titleMinLength :: nat
  instructionsBonus :: real
  constraintsBonus :: real
  domainBonus :: real
  formatBonus :: real
  sectionsBonus :: real
  maxSectionsBonus :: real
  completenessIndicatorBonus :: real
  maxCompletenessIndicatorBonus :: real
  exampleBonus :: real
  depthBonus1 :: real
  depthBonus2 :: real
  depthBonus3 :: real
  depthThreshold1 :: nat
  depthThreshold2 :: nat
  depthThreshold3 :: nat
  shortInstructionPenalty :: real
  shortInstructionThreshold :: nat

record ValidationConfig =
  minPromptLength :: nat
  maxPromptLength :: nat
  roundingPrecision :: nat

record ScoringConfig =
  clarity_cfg :: ClarityConfig
  completeness_cfg :: CompletenessConfig
  validation_cfg :: ValidationConfig

definition DEFAULT_SCORING_CONFIG :: ScoringConfig where
  "DEFAULT_SCORING_CONFIG =
     \<lparr>clarity_cfg =
        \<lparr>baseScore = 0.5, proportionalScoring = True,
         vagueWordPenalty = 0.05, maxVagueWordPenalty = 0.25,
         clarityIndicatorBonus = 0.03, maxClarityIndicatorBonus = 0.15,
         measurementBonus = 0.02, maxMeasurementBonus = 0.1,
         verbBonus = 0.02, maxVerbBonus = 0.1,
         minSentenceLength = 5,
         sentenceLengthThreshold1 = 150, sentenceLengthThreshold2 = 250,
         longSentencePenalty1 = 0.05, longSentencePenalty2 = 0.1,
         structureBonus = 0.05\<rparr>,
      completeness_cfg =
        \<lparr>baseScore_c = 0.35, titleBonus = 0.08, titleMinLength = 5,
         instructionsBonus = 0.18, constraintsBonus = 0.12, domainBonus = 0.08,
         formatBonus = 0.08, sectionsBonus = 0.04, maxSectionsBonus = 0.16,
         completenessIndicatorBonus = 0.025, maxCompletenessIndicatorBonus = 0.1,
         exampleBonus = 0.08,
         depthBonus1 = 0.04, depthBonus2 = 0.04, depthBonus3 = 0.04,
         depthThreshold1 = 50, depthThreshold2 = 100, depthThreshold3 = 200,
         shortInstructionPenalty = 0.1, shortInstructionThreshold = 50\<rparr>,
      validation_cfg =
        \<lparr>minPromptLength = 3, maxPromptLength = 10000, roundingPrecision = 2\<rparr>\<rparr>"

text \<open>
  \<open>getScoringConfig\<close>: the defaults with the overrides of \<open>DOMAIN_CONFIGS\<close> spread over
  them. A name inherited from \<open>Object.prototype\<close> finds a value without \<open>clarity\<close>,
  \<open>completeness\<close> or \<open>validation\<close>, the spreads add nothing, and the result is the
  defaults, as for an unknown domain.
\<close>

definition getScoringConfig :: "jsstring option \<Rightarrow> ScoringConfig" where
  "getScoringConfig dmn =
     (let d = DEFAULT_SCORING_CONFIG; cl = clarity_cfg d; co = completeness_cfg d in
      case dmn of
        None \<Rightarrow> d
      | Some n \<Rightarrow>
          if n = ascii ''code'' then
            d\<lparr>clarity_cfg := cl\<lparr>verbBonus := 0.03, maxVerbBonus := 0.15\<rparr>,
              completeness_cfg := co\<lparr>constraintsBonus := 0.15, exampleBonus := 0.1\<rparr>\<rparr>
          else if n = ascii ''docs'' then
            d\<lparr>clarity_cfg := cl\<lparr>structureBonus := 0.08, clarityIndicatorBonus := 0.04\<rparr>,
              completeness_cfg := co\<lparr>sectionsBonus := 0.06, maxSectionsBonus := 0.2\<rparr>\<rparr>
          else if n = ascii ''product'' then
            d\<lparr>completeness_cfg := co\<lparr>exampleBonus := 0.12, depthBonus1 := 0.06,
                                        depthBonus2 := 0.06, depthBonus3 := 0.06\<rparr>\<rparr>
          else if n = ascii ''research'' then
            d\<lparr>clarity_cfg := cl\<lparr>measurementBonus := 0.04, maxMeasurementBonus := 0.15\<rparr>,
              completeness_cfg := co\<lparr>depthThreshold1 := 75, depthThreshold2 := 150,
                                        depthThreshold3 := 300\<rparr>\<rparr>
          else d)"

text \<open>The configuration object of the single-file server, which has no domain overrides.\<close>

definition SCORING_CONFIG :: ScoringConfig where
  "SCORING_CONFIG =
     \<lparr>clarity_cfg =
        \<lparr>baseScore = 0.5, proportionalScoring = True,
         vagueWordPenalty = 0.08, maxVagueWordPenalty = 0.4,
         clarityIndicatorBonus = 0.12, maxClarityIndicatorBonus = 0.35,
         measurementBonus = 0.1, maxMeasurementBonus = 0.25,
         verbBonus = 0.06, maxVerbBonus = 0.18,
         minSentenceLength = 10,
         sentenceLengthThreshold1 = 150, sentenceLengthThreshold2 = 200,
         longSentencePenalty1 = 0.08, longSentencePenalty2 = 0.12,
         structureBonus = 0.12\<rparr>,
      completeness_cfg =
        \<lparr>baseScore_c = 0.35, titleBonus = 0.08, titleMinLength = 5,
         instructionsBonus = 0.18, constraintsBonus = 0.12, domainBonus = 0.08,
         formatBonus = 0.08, sectionsBonus = 0.04, maxSectionsBonus = 0.16,
         completenessIndicatorBonus = 0.025, maxCompletenessIndicatorBonus = 0.1,
         exampleBonus = 0.08,
         depthBonus1 = 0.04, depthBonus2 = 0.04, depthBonus3 = 0.04,
         depthThreshold1 = 50, depthThreshold2 = 100, depthThreshold3 = 200,
         shortInstructionPenalty = 0.1, shortInstructionThreshold = 50\<rparr>,
      validation_cfg =
        \<lparr>minPromptLength = 3, maxPromptLength = 10000, roundingPrecision = 2\<rparr>\<rparr>"

text \<open>
  \<open>safeRound\<close> with the default precision of two: \<open>Math.round(value * 100) / 100\<close>.
\<close>

definition safeRound :: "real \<Rightarrow> real" where
  "safeRound v = of_int (math_round (v * 100)) / 100"

section \<open>Specifications and issues\<close>

record Contract =
  sections :: "jsstring list option"
  schemaRef :: "jsstring option"

record IO =
  format :: jsstring
  contract :: "Contract option"

record InputRef =
  ref_type :: jsstring
  ref :: jsstring

record Context =
  domain :: "jsstring option"
  inputs :: "InputRef list option"

record Metrics =
  clarity :: "real option"
  completeness :: "real option"

datatype Severity = Info | Warn | Error

record Issue =
  path :: jsstring
  message :: jsstring
  severity :: Severity

text \<open>
  \<open>StructuralThinking\<close>. An optional field is an \<open>option\<close>. The two modules disagree on
  the element type of \<open>ambiguities\<close> (strings in one, issues in the other); both only
  ever store the empty array there.
\<close>

record StructuralThinking =
  version :: jsstring
  intent :: jsstring
  title :: "jsstring option"
  ctx :: "Context option"
  instructions :: "jsstring list"
  constraints :: "jsstring list option"
  io :: IO
  ambiguities :: "Issue list option"
  metrics :: "Metrics option"
  spec_notes :: "jsstring option"

section \<open>Scoring engine (core/analyzer)\<close>

text \<open>
  The four regular expression objects of \<open>STRUCTURE_PATTERNS\<close> are created once, when
  the pattern module is loaded, and \<open>calculateClarity\<close> calls \<open>test\<close> on them. They carry
  the flag \<open>g\<close>, so each keeps a \<open>lastIndex\<close> from one call to the next: this is the
  state that the scoring functions read and write. Every other pattern is either
  without \<open>g\<close>, used through \<open>String.prototype.match\<close>, or a literal evaluated anew
  inside the function, and has no state.
\<close>

record RegExpState =
  bullets_lastIndex :: nat
  numbered_lastIndex :: nat
  headers_lastIndex :: nat
  sequence_lastIndex :: nat

definition module_loaded :: RegExpState where
  "module_loaded = \<lparr>bullets_lastIndex = 0, numbered_lastIndex = 0,
                     headers_lastIndex = 0, sequence_lastIndex = 0\<rparr>"

text \<open>\<open>patterns.filter(rx => rx.test(text)).length\<close>, for patterns without \<open>g\<close>.\<close>

definition count_matching :: "rx list \<Rightarrow> jsstring \<Rightarrow> nat" where
  "count_matching ps text = length (filter (\<lambda>rx. test rx text) ps)"

text \<open>\<open>patterns.reduce((count, p) => count + (text.match(p) || []).length, 0)\<close>.\<close>

definition total_matches :: "rx list \<Rightarrow> jsstring \<Rightarrow> nat" where
  "total_matches ps text = foldl (\<lambda>count p. count + match_count p text) 0 ps"

text \<open>
  \<open>STRUCTURE_PATTERNS.some(pattern => pattern.test(text))\<close>: the patterns are tested in
  order until one matches; each test that runs updates the \<open>lastIndex\<close> of its object.
\<close>

definition structure_some :: "RegExpState \<Rightarrow> jsstring \<Rightarrow> bool \<times> RegExpState" where
  "structure_some st text =
     (let r1 = test_g structure_bullets (bullets_lastIndex st) text;
          st1 = st\<lparr>bullets_lastIndex := snd r1\<rparr>
      in if fst r1 then (True, st1) else
      let r2 = test_g structure_numbered (numbered_lastIndex st1) text;
          st2 = st1\<lparr>numbered_lastIndex := snd r2\<rparr>
      in if fst r2 then (True, st2) else
      let r3 = test_g structure_headers (headers_lastIndex st2) text;
          st3 = st2\<lparr>headers_lastIndex := snd r3\<rparr>
      in if fst r3 then (True, st3) else
      let r4 = test_g structure_sequence (sequence_lastIndex st3) text;
          st4 = st3\<lparr>sequence_lastIndex := snd r4\<rparr>
      in (fst r4, st4))"

text \<open>
  The sentences: the pieces of \<open>text.split(/[.!?]+/)\<close> whose trimmed length exceeds
  \<open>minSentenceLength\<close>, and the two penalties on their mean length.
\<close>

definition is_terminator :: "jschar \<Rightarrow> bool" where
  "is_terminator c = (c \<in> set (ascii ''.!?''))"

definition sentences :: "ClarityConfig \<Rightarrow> jsstring \<Rightarrow> jsstring list" where
  "sentences config text =
     filter (\<lambda>s. length (trim s) > minSentenceLength config)
            (split_runs is_terminator False [] text)"

definition long_sentence_penalty :: "ClarityConfig \<Rightarrow> jsstring \<Rightarrow> real" where
  "long_sentence_penalty config text =
     (let ss = sentences config text in
      if length ss > 0 then
        let avgSentenceLength = real (foldl (\<lambda>sum s. sum + length s) 0 ss) / real (length ss)
        in (if avgSentenceLength > sentenceLengthThreshold1 config
            then longSentencePenalty1 config else 0)
         + (if avgSentenceLength > sentenceLengthThreshold2 config
            then longSentencePenalty2 config else 0)
      else 0)"

definition vague_penalty :: "ClarityConfig \<Rightarrow> jsstring \<Rightarrow> real" where
  "vague_penalty config text =
     (let totalWords = getWordCount text;
          vagueCount = count_matching VAGUE_WORDS text
      in if proportionalScoring config \<and> totalWords > 0
         then min (real vagueCount / real totalWords * real totalWords * vagueWordPenalty config)
                  (maxVagueWordPenalty config)
         else min (real vagueCount * vagueWordPenalty config) (maxVagueWordPenalty config))"

text \<open>
  \<open>calculateClarity(text, hasConstraints, domain)\<close>; the second parameter is never read.
  The result is the score and the state of the pattern objects after the call. A text
  of fewer than three code units fails the validation and scores zero before any
  pattern is tested. When \<open>getDomainPatterns\<close> returns a value that is no array, the
  call of \<open>reduce\<close> on it throws; the handler returns the base score, and the structure
  patterns have been tested by then.
\<close>

definition calculateClarity :: "RegExpState \<Rightarrow> jsstring \<Rightarrow> jsstring option \<Rightarrow> real \<times> RegExpState" where
  "calculateClarity st text dmn =
     (if length text < 3 then (0, st)
      else
        let config = clarity_cfg (getScoringConfig dmn);
            s1 = baseScore config - vague_penalty config text;
            clarityCount = count_matching CLARITY_INDICATORS text;
            s2 = s1 + min (real clarityCount * clarityIndicatorBonus config)
                          (maxClarityIndicatorBonus config);
            numberMatches = total_matches MEASUREMENT_PATTERNS text;
            s3 = s2 + min (real numberMatches * measurementBonus config)
                          (maxMeasurementBonus config);
            verbCount = count_matching CONCRETE_VERBS text;
            s4 = s3 + min (real verbCount * verbBonus config) (maxVerbBonus config);
            s5 = s4 - long_sentence_penalty config text;
            hasStructure = structure_some st text;
            s6 = (if fst hasStructure then s5 + structureBonus config else s5);
            questionMatches = match_count QUESTION_WORDS text;
            s7 = (if questionMatches > 0
                  then s6 + min (real questionMatches * 0.02) 0.08 else s6)
        in case getDomainPatterns dmn of
             Inl _ \<Rightarrow> (baseScore (clarity_cfg (getScoringConfig dmn)), snd hasStructure)
           | Inr domainPatterns \<Rightarrow>
               let domainMatches = total_matches domainPatterns text;
                   s8 = (if domainMatches > 0
                         then s7 + min (real domainMatches * 0.01) 0.05 else s7)
               in (safeRound (max 0 (min 1 s8)), snd hasStructure))"

text \<open>The optional chains \<open>spec.context?.domain\<close> and \<open>spec.io?.contract?.sections\<close>.\<close>

definition spec_domain :: "StructuralThinking \<Rightarrow> jsstring option" where
  "spec_domain spec = (case ctx spec of None \<Rightarrow> None | Some c \<Rightarrow> domain c)"

definition spec_inputs :: "StructuralThinking \<Rightarrow> InputRef list option" where
  "spec_inputs spec = (case ctx spec of None \<Rightarrow> None | Some c \<Rightarrow> inputs c)"

definition spec_sections :: "StructuralThinking \<Rightarrow> jsstring list option" where
  "spec_sections spec = (case contract (io spec) of None \<Rightarrow> None | Some c \<Rightarrow> sections c)"

text \<open>
  A string is truthy when it is present and not empty; \<open>xs && xs.length > 0\<close> and
  \<open>xs?.length\<close> hold of an array that is present and not empty.
\<close>

definition truthy :: "jsstring option \<Rightarrow> bool" where
  "truthy s = (case s of None \<Rightarrow> False | Some t \<Rightarrow> t \<noteq> [])"

definition has_elements :: "'a list option \<Rightarrow> bool" where
  "has_elements xs = (case xs of None \<Rightarrow> False | Some l \<Rightarrow> length l > 0)"

definition example_words :: rx where
  "example_words = bwords [''example'', ''instance'', ''such as'', ''like'', ''including'']"

text \<open>
  \<open>calculateCompleteness(text, spec, domain)\<close>. Its one pattern with \<open>g\<close> is a literal in
  the function body, so the function has no state.
\<close>

definition calculateCompleteness :: "jsstring \<Rightarrow> StructuralThinking \<Rightarrow> jsstring option \<Rightarrow> real" where
  "calculateCompleteness text spec dmn =
     (let config = completeness_cfg (getScoringConfig dmn);
          s0 = baseScore_c config;
          s1 = (case title spec of
                  None \<Rightarrow> s0
                | Some t \<Rightarrow> if t \<noteq> [] \<and> length t \<ge> titleMinLength config
                            then s0 + titleBonus config else s0);
          s2 = (if length (instructions spec) > 0 then
                  let instructionText = js_join (ascii '' '') (instructions spec);
                      instructionWordCount = getWordCount instructionText;
                      a = s1 + instructionsBonus config;
                      b = (if instructionWordCount > depthThreshold1 config
                           then a + depthBonus1 config else a);
                      c = (if instructionWordCount > depthThreshold2 config
                           then b + depthBonus2 config else b);
                      d = (if instructionWordCount > depthThreshold3 config
                           then c + depthBonus3 config else c)
                  in if instructionWordCount < shortInstructionThreshold config
                     then d - shortInstructionPenalty config else d
                else s1);
          s3 = (if has_elements (constraints spec) then s2 + constraintsBonus config else s2);
          s4 = (if truthy (spec_domain spec) then s3 + domainBonus config else s3);
          s5 = (if format (io spec) \<noteq> [] then s4 + formatBonus config else s4);
          s6 = (case spec_sections spec of
                  None \<Rightarrow> s5
                | Some secs \<Rightarrow>
                    if length secs > 0
                    then s5 + min (real (length secs) * sectionsBonus config)
                                  (maxSectionsBonus config)
                    else s5);
          completenessCount = count_matching COMPLETENESS_INDICATORS text;
          s7 = s6 + min (real completenessCount * completenessIndicatorBonus config)
                        (maxCompletenessIndicatorBonus config);
          s8 = (if test example_words text then s7 + exampleBonus config else s7)
      in safeRound (max 0 (min 1 s8)))"

section \<open>Spec drafter and gap detector (core/analyzer)\<close>

text \<open>
  \<open>analyzeVagueLanguage\<close>: the first match of every vague pattern, without duplicates.
  The suggestion texts that the function also returns are display text and are left
  out. \<open>exec_text\<close> is \<open>text.match(rx)[0]\<close> for a pattern without \<open>g\<close>, and \<open>unique\<close> is
  \<open>[...new Set(xs)]\<close>, which keeps first occurrences.
\<close>

fun exec_text :: "rx \<Rightarrow> jschar option \<Rightarrow> jsstring \<Rightarrow> jsstring option" where
  "exec_text r prev [] = (case ends r (prev, []) of [] \<Rightarrow> None | e # _ \<Rightarrow> Some [])"
| "exec_text r prev (c # cs) =
     (case ends r (prev, c # cs) of
        [] \<Rightarrow> exec_text r (Some c) cs
      | e # _ \<Rightarrow> Some (take (length (c # cs) - length (snd e)) (c # cs)))"

definition unique :: "'a list \<Rightarrow> 'a list" where
  "unique xs = rev (remdups (rev xs))"

record VagueLanguageAnalysis =
  hasVague :: bool
  vagueTerms :: "jsstring list"

definition analyzeVagueLanguage :: "jsstring \<Rightarrow> VagueLanguageAnalysis" where
  "analyzeVagueLanguage text =
     (let found = concat (map (\<lambda>rx. case exec_text rx None text of
                                       None \<Rightarrow> [] | Some m \<Rightarrow> [m]) VAGUE_WORDS);
          uniqueTerms = unique found
      in \<lparr>hasVague = length uniqueTerms > 0, vagueTerms = uniqueTerms\<rparr>)"

text \<open>
  \<open>draftFromText(prompt, domain)\<close>. The word limit pattern is \<open>/(\d{2,4})\s*words?/i\<close>;
  the constraint text is the template \<open>max ${wordLimitMatch[1]} words\<close>.
\<close>

definition word_limit :: "jsstring \<Rightarrow> jsstring option" where
  "word_limit joined =
     exec_group (Rep Dig 2 (Some 4)) (Cat [many Spc, plural ''word'']) None joined"

definition empty_contract :: Contract where
  "empty_contract = \<lparr>sections = None, schemaRef = None\<rparr>"

definition draftFromText :: "RegExpState \<Rightarrow> jsstring \<Rightarrow> jsstring option \<Rightarrow> StructuralThinking \<times> RegExpState" where
  "draftFromText st prompt dmn =
     (let lines = filter (\<lambda>line. trim line \<noteq> []) (split_char 10 [] prompt);
          joined = trim (js_join (ascii '' '') lines);
          intent0 =
            (if test (bwords [''create'', ''build'', ''implement'', ''develop'', ''generate'']) joined
             then ascii ''generate_code''
             else if test (bwords [''analyze'', ''review'', ''evaluate'', ''assess'']) joined
             then ascii ''analyze''
             else if test (bwords [''explain'', ''describe'', ''document'', ''outline'']) joined
             then ascii ''explain''
             else ascii ''general'');
          clarity0 = calculateClarity st joined dmn;
          spec0 = \<lparr>version = ascii ''1.0'',
                   intent = intent0,
                   title = Some (case lines of
                                   [] \<Rightarrow> take 100 joined
                                 | l # _ \<Rightarrow> if l \<noteq> [] then l else take 100 joined),
                   ctx = Some (if truthy dmn then \<lparr>domain = dmn, inputs = None\<rparr>
                               else \<lparr>domain = None, inputs = None\<rparr>),
                   instructions = [joined],
                   constraints = Some [],
                   io = \<lparr>format = ascii ''markdown'', contract = Some empty_contract\<rparr>,
                   ambiguities = Some [],
                   metrics = Some \<lparr>clarity = Some (fst clarity0), completeness = Some 0\<rparr>,
                   spec_notes = Some []\<rparr>;
          spec1 = (case word_limit joined of
                     None \<Rightarrow> spec0
                   | Some n \<Rightarrow>
                       spec0\<lparr>constraints := Some [ascii ''max '' @ n @ ascii '' words'']\<rparr>);
          sections0 =
              (if test (bwords [''overview'', ''summary'', ''introduction'']) joined
               then [ascii ''Overview''] else [])
            @ (if test (bword [Alt [Cat [Str ''detail'', opt (ch CHR ''s'')],
                                    Str ''implementation'', plural ''step'']]) joined
               then [ascii ''Details''] else [])
            @ (if test (bword [Alt [Cat [Str ''next step'', opt (ch CHR ''s'')],
                                    Str ''conclusion'',
                                    Cat [Str ''follow'', opt (chr ''- ''), Str ''up'']]]) joined
               then [ascii ''NextSteps''] else [])
            @ (if test (bword [Alt [plural ''example'', plural ''sample'']]) joined
               then [ascii ''Examples''] else []);
          spec2 = (if length sections0 > 0
                   then spec1\<lparr>io := (io spec1)\<lparr>contract :=
                                Some \<lparr>sections = Some sections0, schemaRef = None\<rparr>\<rparr>\<rparr>
                   else spec1);
          completeness0 = calculateCompleteness joined spec2 dmn
      in (spec2\<lparr>metrics := Some \<lparr>clarity = Some (fst clarity0),
                                   completeness = Some completeness0\<rparr>\<rparr>,
          snd clarity0))"

text \<open>\<open>detectGaps(spec)\<close>: the issues in the order of the checks, and the score pair.\<close>

record GapDetection =
  issues :: "Issue list"
  score :: "real \<times> real"

definition issue_sections :: Issue where
  "issue_sections = \<lparr>path = ascii ''/io/contract/sections'',
     message = ascii ''Missing markdown sections for output contract'', severity = Warn\<rparr>"

definition issue_vague :: Issue where
  "issue_vague = \<lparr>path = ascii ''/instructions'',
     message = ascii ''Vague language detected (optimize/better/quickly/etc.)'', severity = Warn\<rparr>"

definition issue_constraints :: Issue where
  "issue_constraints = \<lparr>path = ascii ''/constraints'',
     message = ascii ''Consider adding constraints (word limit, style, tone)'', severity = Info\<rparr>"

definition issue_inputs :: Issue where
  "issue_inputs = \<lparr>path = ascii ''/context/inputs'',
     message = ascii ''No inputs linked (file/url/text). Add at least one if applicable.'',
     severity = Info\<rparr>"

definition metric_or_zero :: "real option \<Rightarrow> real" where
  "metric_or_zero m = (case m of None \<Rightarrow> 0 | Some x \<Rightarrow> x)"

definition detectGaps :: "StructuralThinking \<Rightarrow> GapDetection" where
  "detectGaps spec =
     (let instructionText = js_join (ascii '' '') (instructions spec);
          vagueAnalysis = analyzeVagueLanguage instructionText
      in \<lparr>issues =
              (if format (io spec) = ascii ''markdown'' \<and> \<not> has_elements (spec_sections spec)
               then [issue_sections] else [])
            @ (if hasVague vagueAnalysis then [issue_vague] else [])
            @ (if \<not> has_elements (constraints spec) then [issue_constraints] else [])
            @ (if \<not> has_elements (spec_inputs spec) then [issue_inputs] else []),
          score =
            (case metrics spec of
               None \<Rightarrow> (0, 0)
             | Some m \<Rightarrow> (metric_or_zero (clarity m), metric_or_zero (completeness m)))\<rparr>)"

section \<open>Single-file server (unnamed/part_003)\<close>

text \<open>
  The single-file server carries its own copies of the scoring functions, the drafter
  and the gap detector, under the same names; here they have the suffix \<open>_srv\<close>. Its
  word lists are literally those of the pattern library, its configuration is
  \<open>SCORING_CONFIG\<close>, and all its patterns with \<open>g\<close> are literals inside the functions, so
  none of these functions has state.
\<close>

definition hasVagueLanguage :: "jsstring \<Rightarrow> bool" where
  "hasVagueLanguage text = list_ex (\<lambda>rx. test rx text) VAGUE_WORDS"

definition calculateClarity_srv :: "jsstring \<Rightarrow> real" where
  "calculateClarity_srv text =
     (if length text < minPromptLength (validation_cfg SCORING_CONFIG) then 0
      else
        let config = clarity_cfg SCORING_CONFIG;
            s1 = baseScore config - vague_penalty config text;
            clarityCount = count_matching CLARITY_INDICATORS text;
            s2 = s1 + min (real clarityCount * clarityIndicatorBonus config)
                          (maxClarityIndicatorBonus config);
            numberMatches = match_count (Cat [WordB, some Dig, many Spc, measurement_units, WordB]) text;
            s3 = s2 + min (real numberMatches * measurementBonus config)
                          (maxMeasurementBonus config);
            verbCount = count_matching CONCRETE_VERBS text;
            s4 = s3 + min (real verbCount * verbBonus config) (maxVerbBonus config);
            s5 = s4 - long_sentence_penalty config text;
            s6 = (if test structure_bullets text \<or> test structure_numbered text
                  then s5 + structureBonus config else s5)
        in max 0 (min 1 s6))"

definition calculateCompleteness_srv :: "jsstring \<Rightarrow> StructuralThinking \<Rightarrow> real" where
  "calculateCompleteness_srv text spec =
     (let config = completeness_cfg SCORING_CONFIG;
          s0 = baseScore_c config;
          s1 = (case title spec of
                  None \<Rightarrow> s0
                | Some t \<Rightarrow> if t \<noteq> [] \<and> length t > titleMinLength config
                            then s0 + titleBonus config else s0);
          s2 = (if length (instructions spec) > 0 then s1 + instructionsBonus config else s1);
          s3 = (if has_elements (constraints spec) then s2 + constraintsBonus config else s2);
          s4 = (if truthy (spec_domain spec) then s3 + domainBonus config else s3);
          s5 = (if format (io spec) \<noteq> [] then s4 + formatBonus config else s4);
          s6 = (case spec_sections spec of
                  None \<Rightarrow> s5
                | Some secs \<Rightarrow>
                    if length secs > 0
                    then s5 + min (real (length secs) * sectionsBonus config)
                                  (maxSectionsBonus config)
                    else s5);
          completenessCount = count_matching COMPLETENESS_INDICATORS text;
          s7 = s6 + min (real completenessCount * completenessIndicatorBonus config)
                        (maxCompletenessIndicatorBonus config);
          s8 = (if test (bword [plural ''example'']) text \<or> test (bword [Str ''for instance'']) text
                   \<or> test (bword [Str ''such as'']) text
                then s7 + exampleBonus config else s7);
          instructionWordCount = getWordCount (js_join (ascii '' '') (instructions spec));
          s9 = (if instructionWordCount > depthThreshold1 config
                then s8 + depthBonus1 config else s8);
          s10 = (if instructionWordCount > depthThreshold2 config
                 then s9 + depthBonus2 config else s9);
          s11 = (if instructionWordCount > depthThreshold3 config
                 then s10 + depthBonus3 config else s10);
          s12 = (case instructions spec of
                   [i] \<Rightarrow> if getWordCount i < shortInstructionThreshold config
                          then s11 - shortInstructionPenalty config else s11
                 | _ \<Rightarrow> s11)
      in max 0 (min 1 s12))"

text \<open>\<open>toLines\<close>: split at \<open>/\r?\n/\<close>, trim every line, drop the empty ones.\<close>

definition toLines :: "jsstring \<Rightarrow> jsstring list" where
  "toLines text = filter (\<lambda>s. s \<noteq> []) (map trim (split_newline [] text))"

text \<open>
  \<open>draftFromText\<close> of the server. The intent patterns have no \<open>\b\<close>: they match inside
  words. \<open>lines[0]?.slice(0, 80)\<close> is absent when there is no line.
\<close>

definition draftFromText_srv :: "jsstring \<Rightarrow> jsstring option \<Rightarrow> StructuralThinking" where
  "draftFromText_srv prompt dmn =
     (let lines = toLines prompt;
          joined = js_join (ascii '' '') lines;
          intent0 =
            (if test (Str ''translate'') joined then ascii ''translate''
             else if test (Alt [Str ''refactor'', Str ''rewrite'']) joined then ascii ''refactor''
             else if test (Str ''classify'') joined then ascii ''classify''
             else if test (Str ''explain'') joined then ascii ''explain''
             else if test (Str ''plan'') joined then ascii ''plan''
             else if test (Str ''compare'') joined then ascii ''compare''
             else if test (Cat [Str ''summari'', single (chr ''sz''), Str ''e'']) joined
             then ascii ''summarize''
             else if test (Alt [Str ''generate'', Str ''create'', Str ''write'']) joined
             then ascii ''generate_code''
             else ascii ''general'');
          spec0 = \<lparr>version = ascii ''1.0'',
                   intent = intent0,
                   title = (case lines of [] \<Rightarrow> None | l # _ \<Rightarrow> Some (take 80 l)),
                   ctx = Some \<lparr>domain = dmn, inputs = None\<rparr>,
                   instructions = lines,
                   constraints = Some [],
                   io = \<lparr>format = ascii ''markdown'', contract = Some empty_contract\<rparr>,
                   ambiguities = Some [],
                   metrics = Some \<lparr>clarity = Some 0, completeness = Some 0\<rparr>,
                   spec_notes = Some []\<rparr>;
          spec1 = (case word_limit joined of
                     None \<Rightarrow> spec0
                   | Some n \<Rightarrow>
                       spec0\<lparr>constraints := Some [ascii ''max '' @ n @ ascii '' words'']\<rparr>);
          sections0 =
              (if test (Str ''risk'') joined then [ascii ''Risks''] else [])
            @ (if test (Cat [Str ''next'', many Spc, plural ''step'']) joined
               then [ascii ''NextSteps''] else [])
            @ (if test (Alt [plural ''highlight'', Str ''summary'']) joined
               then [ascii ''Highlights''] else []);
          spec2 = (if length sections0 > 0
                   then spec1\<lparr>io := (io spec1)\<lparr>contract :=
                                Some \<lparr>sections = Some sections0, schemaRef = None\<rparr>\<rparr>\<rparr>
                   else spec1);
          clarity0 = calculateClarity_srv joined;
          completeness0 = calculateCompleteness_srv joined spec2
      in spec2\<lparr>metrics := Some \<lparr>clarity = Some (safeRound clarity0),
                                  completeness = Some (safeRound completeness0)\<rparr>\<rparr>)"

text \<open>\<open>detectGaps\<close> of the server, with its two additional checks.\<close>

definition issue_format :: Issue where
  "issue_format = \<lparr>path = ascii ''/io/format'',
     message = ascii ''Missing output format'', severity = Error\<rparr>"

definition issue_instructions :: Issue where
  "issue_instructions = \<lparr>path = ascii ''/instructions'',
     message = ascii ''No instructions provided'', severity = Error\<rparr>"

definition detectGaps_srv :: "StructuralThinking \<Rightarrow> GapDetection" where
  "detectGaps_srv spec =
     (let joined = js_join (ascii '' '') (instructions spec);
          recalculatedClarity = calculateClarity_srv joined;
          recalculatedCompleteness = calculateCompleteness_srv joined spec;
          clarity0 = (case metrics spec of
                        None \<Rightarrow> recalculatedClarity
                      | Some m \<Rightarrow> (case clarity m of None \<Rightarrow> recalculatedClarity | Some x \<Rightarrow> x));
          completeness0 = (case metrics spec of
                        None \<Rightarrow> recalculatedCompleteness
                      | Some m \<Rightarrow> (case completeness m of
                                     None \<Rightarrow> recalculatedCompleteness | Some x \<Rightarrow> x))
      in \<lparr>issues =
              (if format (io spec) = [] then [issue_format] else [])
            @ (if format (io spec) = ascii ''markdown'' \<and> \<not> has_elements (spec_sections spec)
               then [issue_sections] else [])
            @ (if length (instructions spec) = 0 then [issue_instructions] else [])
            @ (if hasVagueLanguage joined then [issue_vague] else [])
            @ (if \<not> has_elements (constraints spec) then [issue_constraints] else [])
            @ (case ctx spec of
                 None \<Rightarrow> []
               | Some c \<Rightarrow> if \<not> has_elements (inputs c) then [issue_inputs] else []),
          score = (safeRound clarity0, safeRound completeness0)\<rparr>)"

section \<open>Input validation (utils/validation)\<close>

text \<open>
  \<open>validateInputDetailed(value, 'string', minLength, maxLength)\<close> on a string: the error
  code, or \<open>None\<close> for \<open>{ valid: true }\<close>. Both servers call it on the prompt with the
  bounds 3 and 10000 before they draft.
\<close>

datatype ValidationCode = INVALID_TYPE | TOO_SHORT | TOO_LONG

definition validateInputDetailed :: "jsstring \<Rightarrow> nat option \<Rightarrow> nat option \<Rightarrow> ValidationCode option" where
  "validateInputDetailed v minLength maxLength =
     (if (case minLength of None \<Rightarrow> False | Some n \<Rightarrow> length v < n) then Some TOO_SHORT
      else if (case maxLength of None \<Rightarrow> False | Some n \<Rightarrow> length v > n) then Some TOO_LONG
      else None)"

definition validPrompt :: "jsstring \<Rightarrow> bool" where
  "validPrompt prompt = (validateInputDetailed prompt (Some 3) (Some 10000) = None)"

section \<open>Concrete inputs\<close>

definition create_user_authentication :: jsstring where
  "create_user_authentication = ascii ''create user authentication''"

definition three_spaces :: jsstring where
  "three_spaces = ascii ''   ''"

text \<open>The minimal specification of the unit tests, with an empty list of constraints.\<close>

definition minimal_spec :: StructuralThinking where
  "minimal_spec =
     \<lparr>version = ascii ''1.0'', intent = ascii ''general'', title = None, ctx = None,
      instructions = [ascii ''Create something''], constraints = Some [],
      io = \<lparr>format = ascii ''markdown'', contract = None\<rparr>,
      ambiguities = None, metrics = None, spec_notes = None\<rparr>"

text \<open>Texts for the scoring engine.\<close>

definition bullet_line :: jsstring where
  "bullet_line = ascii ''- abc''"

definition short_base :: jsstring where
  "short_base = ascii ''ab''"

definition short_extended :: jsstring where
  "short_extended = ascii ''ab good''"

definition vague_phrase :: jsstring where
  "vague_phrase = ascii ''very good and quite nice solution''"

definition vague_phrase_removed :: jsstring where
  "vague_phrase_removed = ascii ''and solution''"

definition capped_with :: jsstring where
  "capped_with = ascii ''better quickly clean easy fast very good and quite nice solution''"

definition capped_without :: jsstring where
  "capped_without = ascii ''better quickly clean easy fast and solution''"

section \<open>The clarity score as a function of its signals\<close>

text \<open>
  The sum that \<open>calculateClarity\<close> accumulates, as a function of the signals it reads
  from the text: the vague-language penalty, the three capped counts, the sentence
  penalty, the structure flag and the two optional counts.
\<close>

definition clarity_total ::
  "ClarityConfig \<Rightarrow> real \<Rightarrow> nat \<Rightarrow> nat \<Rightarrow> nat \<Rightarrow> real \<Rightarrow> bool \<Rightarrow> nat \<Rightarrow> nat \<Rightarrow> real" where
  "clarity_total config vaguePenalty clarityCount numberMatches verbCount sentencePenalty
       hasStructure questionMatches domainMatches =
     baseScore config - vaguePenalty
     + min (real clarityCount * clarityIndicatorBonus config) (maxClarityIndicatorBonus config)
     + min (real numberMatches * measurementBonus config) (maxMeasurementBonus config)
     + min (real verbCount * verbBonus config) (maxVerbBonus config)
     - sentencePenalty
     + (if hasStructure then structureBonus config else 0)
     + (if questionMatches > 0 then min (real questionMatches * 0.02) 0.08 else 0)
     + (if domainMatches > 0 then min (real domainMatches * 0.01) 0.05 else 0)"

text \<open>
  The clarity signals other than the vague-language penalty, as \<open>calculateClarity\<close> reads
  them from a text: the counts of clarity indicators, measurements and concrete verbs,
  the sentence penalty, the structure flag, and the counts of question words and of
  domain terms.
\<close>

definition other_signals ::
  "RegExpState \<Rightarrow> jsstring \<Rightarrow> jsstring option \<Rightarrow> nat \<times> nat \<times> nat \<times> real \<times> bool \<times> nat \<times> nat" where
  "other_signals st text dmn =
     (count_matching CLARITY_INDICATORS text,
      total_matches MEASUREMENT_PATTERNS text,
      count_matching CONCRETE_VERBS text,
      long_sentence_penalty (clarity_cfg (getScoringConfig dmn)) text,
      fst (structure_some st text),
      match_count QUESTION_WORDS text,
      (case getDomainPatterns dmn of Inl _ \<Rightarrow> 0 | Inr ps \<Rightarrow> total_matches ps text))"

section \<open>Properties of the result cache\<close>

lemma map_of_map_delete: "map_of (map_delete k m) k' = (if k' = k then None else map_of m k')"
  unfolding map_delete_def by (induction m) auto

lemma map_has_map_delete: "map_has k' (map_delete k m) = (k' \<noteq> k \<and> map_has k' m)"
  by (simp add: map_has_def map_of_map_delete)

lemma map_set_fresh: "\<not> map_has k m \<Longrightarrow> map_set k v m = m @ [(k, v)]"
  by (simp add: map_set_def)

lemma map_of_append_fresh:
  "\<not> map_has k m \<Longrightarrow> map_of (m @ [(k, v)]) k = Some v"
  by (induction m) (auto simp: map_has_def)

lemma map_delete_append_fresh:
  "\<not> map_has k m \<Longrightarrow> map_delete k (m @ [(k, v)]) = m"
  unfolding map_delete_def map_has_def
  by (induction m) (auto split: if_splits)

lemma map_has_keys: "map_has k m = (k \<in> set (map fst m))"
  unfolding map_has_def by (induction m) auto

lemma cache_set_entry:
  "\<exists>m. cache (set_entry now k v t c) = m @ [(k, \<lparr>key = k, val = v, timestamp = now, ttl = actualTTL t c,
                   accessCount = 1, lastAccessed = now\<rparr>)] \<and> \<not> map_has k m"
  unfolding set_entry_def Let_def
  by (auto simp: map_set_fresh map_has_map_delete)

lemma counters_set_entry: "hits (set_entry now k v t c) = hits c" "misses (set_entry now k v t c) = misses c"
  by (simp_all add: set_entry_def Let_def)

lemma get_expired:
  assumes "map_of (cache c) k = Some e" "now - timestamp e > ttl e"
  shows "get now k c = (None, c\<lparr>cache := map_delete k (cache c), misses := misses c + 1\<rparr>)"
  using assms by (simp add: get_def)

lemma get_live:
  assumes "map_of (cache c) k = Some e" "\<not> now - timestamp e > ttl e"
  shows "fst (get now k c) = Some (val e)" "hits (snd (get now k c)) = hits c + 1"
    "misses (snd (get now k c)) = misses c"
  using assms by (simp_all add: get_def Let_def)

text \<open>
  Claim C2. After \<open>set(k, v)\<close> at time \<open>now\<close>, a \<open>get(k)\<close> at a time \<open>now'\<close> with
  \<open>now' - now\<close> at most the entry's TTL returns \<open>v\<close> and counts a hit; with
  \<open>now' - now\<close> above the TTL it returns \<open>null\<close>, removes the entry and counts a miss.
  The last part is the same for any stored entry whose age exceeds its TTL.
\<close>

theorem set_then_get:
  "(now' - now \<le> actualTTL t c \<longrightarrow>
      fst (get now' k (set_entry now k v t c)) = Some v \<and>
      hits (snd (get now' k (set_entry now k v t c))) = hits c + 1 \<and>
      misses (snd (get now' k (set_entry now k v t c))) = misses c) \<and>
   (now' - now > actualTTL t c \<longrightarrow>
      fst (get now' k (set_entry now k v t c)) = None \<and>
      \<not> map_has k (cache (snd (get now' k (set_entry now k v t c)))) \<and>
      hits (snd (get now' k (set_entry now k v t c))) = hits c \<and>
      misses (snd (get now' k (set_entry now k v t c))) = misses c + 1) \<and>
   (map_of (cache c) k = Some e \<and> now - timestamp e > ttl e \<longrightarrow>
      fst (get now k c) = None \<and>
      \<not> map_has k (cache (snd (get now k c))) \<and>
      hits (snd (get now k c)) = hits c \<and>
      misses (snd (get now k c)) = misses c + 1)"
proof -
  obtain m where m: "cache (set_entry now k v t c) = m @ [(k, \<lparr>key = k, val = v, timestamp = now,
      ttl = actualTTL t c, accessCount = 1, lastAccessed = now\<rparr>)]" "\<not> map_has k m"
    using cache_set_entry[of now k v t c] by auto
  let ?e = "\<lparr>key = k, val = v, timestamp = now, ttl = actualTTL t c, accessCount = 1, lastAccessed = now\<rparr>"
  have stored: "map_of (cache (set_entry now k v t c)) k = Some ?e"
    unfolding m(1) by (rule map_of_append_fresh[OF m(2)])
  have c1: "hits (set_entry now k v t c) = hits c" "misses (set_entry now k v t c) = misses c"
    by (simp_all add: counters_set_entry)
  have del: "map_delete k (cache (set_entry now k v t c)) = m"
    unfolding m(1) by (rule map_delete_append_fresh[OF m(2)])
  have A: "now' - now \<le> actualTTL t c \<longrightarrow>
      fst (get now' k (set_entry now k v t c)) = Some v \<and>
      hits (snd (get now' k (set_entry now k v t c))) = hits c + 1 \<and>
      misses (snd (get now' k (set_entry now k v t c))) = misses c"
    using get_live[OF stored, of now'] c1 by simp
  have B: "now' - now > actualTTL t c \<longrightarrow>
      fst (get now' k (set_entry now k v t c)) = None \<and>
      \<not> map_has k (cache (snd (get now' k (set_entry now k v t c)))) \<and>
      hits (snd (get now' k (set_entry now k v t c))) = hits c \<and>
      misses (snd (get now' k (set_entry now k v t c))) = misses c + 1"
    using get_expired[OF stored, of now'] c1 m(2) del by simp
  have C: "map_of (cache c) k = Some e \<and> now - timestamp e > ttl e \<longrightarrow>
      fst (get now k c) = None \<and>
      \<not> map_has k (cache (snd (get now k c))) \<and>
      hits (snd (get now k c)) = hits c \<and>
      misses (snd (get now k c)) = misses c + 1"
    using get_expired[of c k e now] by (simp add: map_has_map_delete)
  show ?thesis using A B C by blast
qed

theorem set_then_get_witness:
  "fst (get 500 (ascii ''k'') (set_entry 0 (ascii ''k'') (7::nat) None (new_LRUCache 2 1000))) = Some 7 \<and>
   hits (snd (get 500 (ascii ''k'') (set_entry 0 (ascii ''k'') (7::nat) None (new_LRUCache 2 1000)))) = 1 \<and>
   fst (get 1001 (ascii ''k'') (set_entry 0 (ascii ''k'') (7::nat) None (new_LRUCache 2 1000))) = None \<and>
   misses (snd (get 1001 (ascii ''k'') (set_entry 0 (ascii ''k'') (7::nat) None (new_LRUCache 2 1000)))) = 1"
  using set_then_get [of 500 0 None "new_LRUCache 2 1000" "ascii ''k''" "7::nat"]
        set_then_get [of 1001 0 None "new_LRUCache 2 1000" "ascii ''k''" "7::nat"]
  by (simp add: actualTTL_def new_LRUCache_def)

text \<open>
  Claim C10. \<open>delete(key)\<close> reads no clock and tests no expiry: it returns whether the
  key was stored (true also for an entry whose TTL has elapsed at any clock reading
  \<open>now\<close>), leaves no entry under the key, keeps every other entry, and leaves the hit and
  miss counters as they were.
\<close>

theorem delete_ignores_expiry:
  "fst (delete k c) = map_has k (cache c) \<and>
   (map_of (cache c) k = Some e \<and> now - timestamp e > ttl e \<longrightarrow> fst (delete k c) = True) \<and>
   \<not> map_has k (cache (snd (delete k c))) \<and>
   (\<forall>k'. k' \<noteq> k \<longrightarrow> map_of (cache (snd (delete k c))) k' = map_of (cache c) k') \<and>
   hits (snd (delete k c)) = hits c \<and>
   misses (snd (delete k c)) = misses c"
  by (simp add: delete_def map_has_map_delete map_of_map_delete map_has_def)

theorem delete_ignores_expiry_witness:
  "fst (delete (ascii ''k'') (set_entry 0 (ascii ''k'') (7::nat) (Some 10) (new_LRUCache 2 1000))) = True \<and>
   fst (has 100 (ascii ''k'') (set_entry 0 (ascii ''k'') (7::nat) (Some 10) (new_LRUCache 2 1000))) = False"
  using delete_ignores_expiry [of "ascii ''k''" "set_entry 0 (ascii ''k'') (7::nat) (Some 10) (new_LRUCache 2 1000)"
       "\<lparr>key = ascii ''k'', val = 7::nat, timestamp = 0, ttl = 10, accessCount = 1, lastAccessed = 0\<rparr>" 100]
  by (simp add: set_entry_def new_LRUCache_def actualTTL_def map_set_def map_has_def has_def ascii_def)





text \<open>
  Claim C3, at the failing input. A cache of capacity one holds the key \<open>""\<close>; a second,
  new key is inserted. \<open>if (firstKey)\<close> finds the oldest key falsy, nothing is evicted,
  and the cache holds two entries.
\<close>

theorem empty_key_not_evicted:
  "maxSize two_in_capacity_one = 1 \<and> size_of two_in_capacity_one = 2 \<and>
   keys two_in_capacity_one = [ascii '''', ascii ''a'']"
  by (simp add: two_in_capacity_one_def set_entry_def new_LRUCache_def actualTTL_def map_set_def
        map_has_def map_delete_def evict_first_def ascii_def size_of_def keys_def Let_def)

text \<open>
  Away from that input the bound holds: with a capacity of at least one and no empty key
  stored, \<open>set\<close> keeps the size within the capacity, and at capacity a new key takes the
  place of the oldest entry.
\<close>

lemma length_map_delete_has: "map_has k m \<Longrightarrow> length (map_delete k m) < length m"
  unfolding map_has_keys map_delete_def
  by (auto intro: length_filter_less)

lemma length_evict_first:
  "m \<noteq> [] \<Longrightarrow> [] \<notin> set (map fst m) \<Longrightarrow> length (evict_first m) < length m"
  unfolding evict_first_def
  by (cases m) (auto simp: map_delete_def le_imp_less_Suc)

lemma length_map_set: "length (map_set k v m) = (if map_has k m then length m else Suc (length m))"
  by (simp add: map_set_def)

lemma set_entry_size_bound:
  assumes "1 \<le> maxSize c" and "int (size_of c) \<le> maxSize c"
    and "[] \<notin> set (keys c)"
  shows "int (size_of (set_entry now k v t c)) \<le> maxSize c"
proof (cases "map_has k (cache c)")
  case True
  then have "cache (set_entry now k v t c) = map_set k \<lparr>key = k, val = v, timestamp = now, ttl = actualTTL t c,
                   accessCount = 1, lastAccessed = now\<rparr> (map_delete k (cache c))"
    by (simp add: set_entry_def Let_def)
  moreover have "length (map_delete k (cache c)) < length (cache c)"
    using True by (rule length_map_delete_has)
  ultimately show ?thesis
    using assms(2) by (simp add: size_of_def length_map_set map_has_map_delete)
next
  case False
  show ?thesis
  proof (cases "int (length (cache c)) \<ge> maxSize c")
    case full: True
    then have ne: "cache c \<noteq> []" using assms(1) by auto
    have lt: "length (evict_first (cache c)) < length (cache c)"
      using ne assms(3) by (intro length_evict_first) (simp_all add: keys_def)
    have nh: "\<not> map_has k (evict_first (cache c))"
      using False by (auto simp: evict_first_def map_has_map_delete split: list.splits)
    have "cache (set_entry now k v t c) = map_set k \<lparr>key = k, val = v, timestamp = now, ttl = actualTTL t c,
                   accessCount = 1, lastAccessed = now\<rparr> (evict_first (cache c))"
      using False full nh by (simp add: set_entry_def Let_def)
    then show ?thesis
      using lt nh assms(2) by (simp add: size_of_def length_map_set)
  next
    case notfull: False
    have "cache (set_entry now k v t c) = map_set k \<lparr>key = k, val = v, timestamp = now, ttl = actualTTL t c,
                   accessCount = 1, lastAccessed = now\<rparr> (cache c)"
      using False notfull by (simp add: set_entry_def Let_def)
    then show ?thesis
      using False notfull by (simp add: size_of_def length_map_set)
  qed
qed

lemma set_entry_evicts_oldest:
  assumes "int (size_of c) \<ge> maxSize c" and "\<not> map_has k (cache c)"
    and "cache c = (k0, e0) # rest" and "k0 \<noteq> []" and "distinct (keys c)"
  shows "cache (set_entry now k v t c) =
           rest @ [(k, \<lparr>key = k, val = v, timestamp = now, ttl = actualTTL t c,
                        accessCount = 1, lastAccessed = now\<rparr>)]"
proof -
  have "map_delete k0 rest = rest"
    using assms(3,5) unfolding map_delete_def keys_def
    by (auto intro!: filter_True)
  then have ev: "evict_first (cache c) = rest"
    using assms(3,4) by (simp add: evict_first_def map_delete_def)
  have nh: "\<not> map_has k rest"
    using assms(2,3) by (auto simp: map_has_def split: if_splits)
  show ?thesis
    using assms(1,2) ev nh by (simp add: set_entry_def Let_def size_of_def map_set_def)
qed

section \<open>Properties of the spec drafter\<close>

text \<open>The definitions that evaluating a concrete text or pattern unfolds.\<close>

lemmas text_defs = ascii_def trim_def is_space_def is_digit_def is_word_def canon_def
lemmas rx_defs = test_def bwords_def bword_def plural_def opt_def some_def many_def single_def
  chr_def ch_def at_boundary_def in_cc_def match_count_def

lemma draftFromText_instructions:
  "instructions (fst (draftFromText st prompt dmn)) =
     [trim (js_join (ascii '' '') (filter (\<lambda>line. trim line \<noteq> []) (split_char 10 [] prompt)))]"
  unfolding draftFromText_def Let_def fst_conv
  by (simp add: if_distrib[of instructions] option.case_distrib[of instructions]
           cong: if_cong option.case_cong split: option.split)

lemma draftFromText_format:
  "format (io (fst (draftFromText st prompt dmn))) = ascii ''markdown''"
  unfolding draftFromText_def Let_def fst_conv
  by (simp add: if_distrib[of io] option.case_distrib[of io] if_distrib[of format]
           cong: if_cong option.case_cong split: option.split)

lemma draftFromText_intent:
  "intent (fst (draftFromText st prompt dmn)) =
     (let joined = trim (js_join (ascii '' '') (filter (\<lambda>line. trim line \<noteq> []) (split_char 10 [] prompt))) in
      if test (bwords [''create'', ''build'', ''implement'', ''develop'', ''generate'']) joined
             then ascii ''generate_code''
             else if test (bwords [''analyze'', ''review'', ''evaluate'', ''assess'']) joined
             then ascii ''analyze''
             else if test (bwords [''explain'', ''describe'', ''document'', ''outline'']) joined
             then ascii ''explain''
             else ascii ''general'')"
  unfolding draftFromText_def Let_def fst_conv
  by (simp add: if_distrib[of intent] option.case_distrib[of intent]
           cong: if_cong option.case_cong split: option.split)

lemma draftFromText_srv_instructions:
  "instructions (draftFromText_srv prompt dmn) = toLines prompt"
  unfolding draftFromText_srv_def Let_def
  by (simp add: if_distrib[of instructions] option.case_distrib[of instructions]
           cong: if_cong option.case_cong split: option.split)

lemma draftFromText_srv_format:
  "format (io (draftFromText_srv prompt dmn)) = ascii ''markdown''"
  unfolding draftFromText_srv_def Let_def
  by (simp add: if_distrib[of io] option.case_distrib[of io] if_distrib[of format]
           cong: if_cong option.case_cong split: option.split)

lemma draftFromText_srv_intent:
  "intent (draftFromText_srv prompt dmn) =
     (let joined = js_join (ascii '' '') (toLines prompt) in
      if test (Str ''translate'') joined then ascii ''translate''
      else if test (Alt [Str ''refactor'', Str ''rewrite'']) joined then ascii ''refactor''
      else if test (Str ''classify'') joined then ascii ''classify''
      else if test (Str ''explain'') joined then ascii ''explain''
      else if test (Str ''plan'') joined then ascii ''plan''
      else if test (Str ''compare'') joined then ascii ''compare''
      else if test (Cat [Str ''summari'', single (chr ''sz''), Str ''e'']) joined
      then ascii ''summarize''
      else if test (Alt [Str ''generate'', Str ''create'', Str ''write'']) joined
      then ascii ''generate_code''
      else ascii ''general'')"
  unfolding draftFromText_srv_def Let_def
  by (simp add: if_distrib[of intent] option.case_distrib[of intent]
           cong: if_cong option.case_cong split: option.split)

lemma joined_scenario_A:
  "trim (js_join (ascii '' '') (filter (\<lambda>line. trim line \<noteq> [])
      (split_char 10 [] create_user_authentication))) = ascii ''create user authentication''"
  by (simp add: text_defs create_user_authentication_def)

lemma toLines_scenario_A:
  "toLines create_user_authentication = [ascii ''create user authentication'']"
  by (simp add: text_defs toLines_def create_user_authentication_def)

lemma intent_scenario_A:
  "intent (fst (draftFromText st create_user_authentication None)) = ascii ''generate_code''"
  unfolding draftFromText_intent joined_scenario_A Let_def
  by (simp add: text_defs rx_defs)

lemma intent_srv_scenario_A:
  "intent (draftFromText_srv create_user_authentication None) = ascii ''generate_code''"
  unfolding draftFromText_srv_intent toLines_scenario_A Let_def
  by (simp add: text_defs rx_defs)

text \<open>
  Claim C9. Drafting \<open>"create user authentication"\<close> without a domain gives the intent
  \<open>generate_code\<close>, exactly one instruction and the format \<open>markdown\<close>: in the analyzer
  module, whatever the state of the pattern objects, and in the single-file server.
\<close>

theorem scenario_A:
  "intent (fst (draftFromText st create_user_authentication None)) = ascii ''generate_code'' \<and>
   length (instructions (fst (draftFromText st create_user_authentication None))) = 1 \<and>
   format (io (fst (draftFromText st create_user_authentication None))) = ascii ''markdown'' \<and>
   intent (draftFromText_srv create_user_authentication None) = ascii ''generate_code'' \<and>
   length (instructions (draftFromText_srv create_user_authentication None)) = 1 \<and>
   format (io (draftFromText_srv create_user_authentication None)) = ascii ''markdown''"
  by (simp add: draftFromText_instructions draftFromText_format intent_scenario_A
      draftFromText_srv_instructions draftFromText_srv_format toLines_scenario_A intent_srv_scenario_A)

lemma draftFromText_one_instruction:
  "length (instructions (fst (draftFromText st prompt dmn))) = 1"
  by (simp add: draftFromText_instructions)

text \<open>
  Claim C6, at the failing input. A prompt of three spaces passes the length validation.
  The drafter of the single-file server takes the non-empty trimmed lines as the
  instructions and returns none, which its own gap detector reports as the error
  \<open>No instructions provided\<close>; the drafter of the analyzer module returns one (empty)
  instruction for the same prompt, as it returns exactly one for every prompt.
\<close>

theorem whitespace_prompt_no_instructions:
  "validPrompt three_spaces \<and>
   instructions (draftFromText_srv three_spaces dmn) = [] \<and>
   issue_instructions \<in> set (issues (detectGaps_srv (draftFromText_srv three_spaces dmn))) \<and>
   instructions (fst (draftFromText st three_spaces dmn)) = [[]]"
proof -
  have v: "validPrompt three_spaces"
    by (simp add: validPrompt_def validateInputDetailed_def three_spaces_def ascii_def)
  have l: "toLines three_spaces = []"
    by (simp add: toLines_def text_defs three_spaces_def)
  have i: "instructions (draftFromText_srv three_spaces dmn) = []"
    by (simp add: draftFromText_srv_instructions l)
  have g: "issue_instructions \<in> set (issues (detectGaps_srv (draftFromText_srv three_spaces dmn)))"
    unfolding detectGaps_srv_def Let_def by (simp add: i)
  have a: "instructions (fst (draftFromText st three_spaces dmn)) = [[]]"
    unfolding draftFromText_instructions by (simp add: text_defs three_spaces_def)
  show ?thesis using v i g a by blast
qed

section \<open>Properties of the gap detector\<close>

lemma issue_fields:
  "severity issue_sections = Warn" "severity issue_vague = Warn"
  "severity issue_format = Error" "severity issue_instructions = Error"
  "severity issue_constraints = Info" "path issue_constraints = ascii ''/constraints''"
  "severity issue_inputs = Info" "path issue_inputs \<noteq> ascii ''/constraints''"
  by (simp_all add: issue_sections_def issue_vague_def issue_format_def issue_instructions_def
      issue_constraints_def issue_inputs_def ascii_def)

text \<open>
  Claim C8. For a specification whose \<open>constraints\<close> is the empty list, the issue list of
  the gap detector has exactly one entry with severity \<open>info\<close> and path \<open>/constraints\<close>,
  in the analyzer module and in the single-file server.
\<close>

theorem empty_constraints_one_info:
  "constraints spec = Some [] \<Longrightarrow>
     length (filter (\<lambda>i. severity i = Info \<and> path i = ascii ''/constraints'')
                    (issues (detectGaps spec))) = 1 \<and>
     length (filter (\<lambda>i. severity i = Info \<and> path i = ascii ''/constraints'')
                    (issues (detectGaps_srv spec))) = 1"
  by (simp add: detectGaps_def detectGaps_srv_def Let_def issue_fields has_elements_def
       split: option.split)

theorem empty_constraints_one_info_witness:
  "constraints minimal_spec = Some [] \<and>
   length (filter (\<lambda>i. severity i = Info \<and> path i = ascii ''/constraints'')
                  (issues (detectGaps minimal_spec))) = 1 \<and>
   issues (detectGaps minimal_spec) = [issue_sections, issue_constraints, issue_inputs]"
proof -
  have c: "constraints minimal_spec = Some []"
    by (simp add: minimal_spec_def)
  have v: "\<not> hasVague (analyzeVagueLanguage (ascii ''Create something''))"
    by (simp add: analyzeVagueLanguage_def unique_def VAGUE_WORDS_def text_defs rx_defs)
  have "issues (detectGaps minimal_spec) = [issue_sections, issue_constraints, issue_inputs]"
    using v by (simp add: detectGaps_def minimal_spec_def Let_def has_elements_def
        spec_sections_def spec_inputs_def)
  with c empty_constraints_one_info [OF c] show ?thesis by simp
qed

section \<open>Properties of the scoring engine\<close>

lemma clarity_cfg_base: "baseScore (clarity_cfg (getScoringConfig dmn)) = 1 / 2"
  by (simp add: getScoringConfig_def DEFAULT_SCORING_CONFIG_def Let_def split: option.split)

lemma clarity_cfg_vague:
  "vagueWordPenalty (clarity_cfg (getScoringConfig dmn)) = 1 / 20"
  "maxVagueWordPenalty (clarity_cfg (getScoringConfig dmn)) = 1 / 4"
  by (simp_all add: getScoringConfig_def DEFAULT_SCORING_CONFIG_def Let_def split: option.split)

lemma math_round_clamp:
  assumes "0 \<le> x" "x \<le> 1"
  shows "0 \<le> math_round (x * 100)" "math_round (x * 100) \<le> 100"
proof -
  have "0 \<le> x * 100 + 1 / 2" using assms by simp
  then show "0 \<le> math_round (x * 100)" unfolding math_round_def by simp
  have "x * 100 + 1 / 2 < 101" using assms by simp
  then have "\<lfloor>x * 100 + 1 / 2\<rfloor> < 101" by (simp add: floor_less_iff)
  then show "math_round (x * 100) \<le> 100" unfolding math_round_def by simp
qed

lemma safeRound_clamp:
  "0 \<le> safeRound (max 0 (min 1 x))" "safeRound (max 0 (min 1 x)) \<le> 1"
  "\<exists>k::int. safeRound (max 0 (min 1 x)) = of_int k / 100"
proof -
  have r: "0 \<le> max 0 (min 1 x)" "max 0 (min 1 x) \<le> 1" by simp_all
  show "0 \<le> safeRound (max 0 (min 1 x))"
    using math_round_clamp(1)[OF r] by (simp add: safeRound_def)
  show "safeRound (max 0 (min 1 x)) \<le> 1"
    using math_round_clamp(2)[OF r] by (simp add: safeRound_def)
  show "\<exists>k::int. safeRound (max 0 (min 1 x)) = of_int k / 100"
    unfolding safeRound_def by blast
qed

lemma calculateClarity_shape:
  "fst (calculateClarity st text dmn) = 0 \<or>
   fst (calculateClarity st text dmn) = 1 / 2 \<or>
   (\<exists>x. fst (calculateClarity st text dmn) = safeRound (max 0 (min 1 x)))"
  unfolding calculateClarity_def Let_def
  by (auto simp: clarity_cfg_base split: sum.split)

lemma calculateCompleteness_shape:
  "\<exists>x. calculateCompleteness text spec dmn = safeRound (max 0 (min 1 x))"
  unfolding calculateCompleteness_def Let_def by blast

text \<open>
  Claim C1. For every text, every specification, every optional domain and every state
  of the pattern objects, the clarity score and the completeness score lie in the
  closed interval from 0 to 1 and are whole multiples of one hundredth.
\<close>

theorem scores_clamped_and_rounded:
  "0 \<le> fst (calculateClarity st text dmn) \<and> fst (calculateClarity st text dmn) \<le> 1 \<and>
   (\<exists>k::int. fst (calculateClarity st text dmn) = of_int k / 100) \<and>
   0 \<le> calculateCompleteness text spec dmn \<and> calculateCompleteness text spec dmn \<le> 1 \<and>
   (\<exists>k::int. calculateCompleteness text spec dmn = of_int k / 100)"
proof -
  have z: "0 \<le> (0::real) \<and> (0::real) \<le> 1 \<and> (\<exists>k::int. (0::real) = of_int k / 100)"
    by (intro conjI exI[of _ 0]) simp_all
  have h: "0 \<le> (1 / 2::real) \<and> (1 / 2::real) \<le> 1 \<and> (\<exists>k::int. (1 / 2::real) = of_int k / 100)"
    by (intro conjI exI[of _ 50]) simp_all
  have r: "0 \<le> safeRound (max 0 (min 1 x)) \<and> safeRound (max 0 (min 1 x)) \<le> 1 \<and>
      (\<exists>k::int. safeRound (max 0 (min 1 x)) = of_int k / 100)" for x
    using safeRound_clamp[of x] by blast
  consider (short) "fst (calculateClarity st text dmn) = 0"
    | (caught) "fst (calculateClarity st text dmn) = 1 / 2"
    | (scored) x where "fst (calculateClarity st text dmn) = safeRound (max 0 (min 1 x))"
    using calculateClarity_shape[of st "text" dmn] by blast
  then have cl: "0 \<le> fst (calculateClarity st text dmn) \<and> fst (calculateClarity st text dmn) \<le> 1 \<and>
   (\<exists>k::int. fst (calculateClarity st text dmn) = of_int k / 100)"
  proof cases
    case short
    show ?thesis unfolding short by (rule z)
  next
    case caught
    show ?thesis unfolding caught by (rule h)
  next
    case scored
    show ?thesis unfolding scored by (rule r)
  qed
  obtain y where y: "calculateCompleteness text spec dmn = safeRound (max 0 (min 1 y))"
    using calculateCompleteness_shape[of "text" spec dmn] by blast
  have co: "0 \<le> calculateCompleteness text spec dmn \<and> calculateCompleteness text spec dmn \<le> 1 \<and>
   (\<exists>k::int. calculateCompleteness text spec dmn = of_int k / 100)"
    unfolding y by (rule r)
  show ?thesis using cl co by blast
qed

lemma calculateClarity_total:
  assumes "3 \<le> length text" and "getDomainPatterns dmn = Inr ps"
  shows "calculateClarity st text dmn =
    (safeRound (max 0 (min 1 (clarity_total (clarity_cfg (getScoringConfig dmn))
        (vague_penalty (clarity_cfg (getScoringConfig dmn)) text)
        (count_matching CLARITY_INDICATORS text)
        (total_matches MEASUREMENT_PATTERNS text)
        (count_matching CONCRETE_VERBS text)
        (long_sentence_penalty (clarity_cfg (getScoringConfig dmn)) text)
        (fst (structure_some st text))
        (match_count QUESTION_WORDS text)
        (total_matches ps text)))),
     snd (structure_some st text))"
  using assms unfolding calculateClarity_def clarity_total_def Let_def
  by simp

lemma default_config: "getScoringConfig None = DEFAULT_SCORING_CONFIG"
  by (simp add: getScoringConfig_def Let_def)

lemma no_domain_patterns: "getDomainPatterns None = Inr []"
  by (simp add: getDomainPatterns_def)

lemmas pattern_defs = VAGUE_WORDS_def CLARITY_INDICATORS_def MEASUREMENT_PATTERNS_def
  measurement_units_def CONCRETE_VERBS_def QUESTION_WORDS_def
  structure_bullets_def structure_numbered_def structure_headers_def structure_sequence_def

lemmas signal_defs = vague_penalty_def getWordCount_def count_matching_def total_matches_def
  long_sentence_penalty_def sentences_def is_terminator_def

lemma bullet_line_signals:
  "vague_penalty (clarity_cfg DEFAULT_SCORING_CONFIG) bullet_line = 0"
  "count_matching CLARITY_INDICATORS bullet_line = 0"
  "total_matches MEASUREMENT_PATTERNS bullet_line = 0"
  "count_matching CONCRETE_VERBS bullet_line = 0"
  "long_sentence_penalty (clarity_cfg DEFAULT_SCORING_CONFIG) bullet_line = 0"
  "match_count QUESTION_WORDS bullet_line = 0"
  by (simp_all add: bullet_line_def signal_defs pattern_defs DEFAULT_SCORING_CONFIG_def text_defs rx_defs)

lemma bullet_line_structure:
  "structure_some module_loaded bullet_line = (True, module_loaded\<lparr>bullets_lastIndex := 2\<rparr>)"
  "structure_some (module_loaded\<lparr>bullets_lastIndex := 2\<rparr>) bullet_line = (False, module_loaded)"
  by (simp_all add: structure_some_def module_loaded_def bullet_line_def test_g_def prev_at_def
      pattern_defs text_defs rx_defs Let_def)

lemma draft_joined_bullet_line:
  "trim (js_join (ascii '' '') (filter (\<lambda>line. trim line \<noteq> []) (split_char 10 [] bullet_line)))
     = bullet_line"
  by (simp add: bullet_line_def text_defs)

lemma draftFromText_clarity:
  "map_option clarity (metrics (fst (draftFromText st prompt dmn))) =
     Some (Some (fst (calculateClarity st
       (trim (js_join (ascii '' '') (filter (\<lambda>line. trim line \<noteq> []) (split_char 10 [] prompt)))) dmn)))"
  "snd (draftFromText st prompt dmn) =
     snd (calculateClarity st
       (trim (js_join (ascii '' '') (filter (\<lambda>line. trim line \<noteq> []) (split_char 10 [] prompt)))) dmn)"
  unfolding draftFromText_def Let_def fst_conv snd_conv
  by (simp_all add: if_distrib[of metrics] option.case_distrib[of metrics]
           cong: if_cong option.case_cong split: option.split)

lemma total_matches_Nil: "total_matches [] text = 0"
  by (simp add: total_matches_def)

lemma bullet_line_first:
  "calculateClarity module_loaded bullet_line None =
     (11 / 20, module_loaded\<lparr>bullets_lastIndex := 2\<rparr>)"
proof -
  have "3 \<le> length bullet_line" by (simp add: bullet_line_def ascii_def)
  from calculateClarity_total[OF this no_domain_patterns, of module_loaded]
  show ?thesis
    unfolding default_config bullet_line_signals bullet_line_structure total_matches_Nil
    by (simp add: clarity_total_def DEFAULT_SCORING_CONFIG_def safeRound_def math_round_def)
qed

lemma bullet_line_second:
  "calculateClarity (module_loaded\<lparr>bullets_lastIndex := 2\<rparr>) bullet_line None =
     (1 / 2, module_loaded)"
proof -
  have "3 \<le> length bullet_line" by (simp add: bullet_line_def ascii_def)
  from calculateClarity_total[OF this no_domain_patterns, of "module_loaded\<lparr>bullets_lastIndex := 2\<rparr>"]
  show ?thesis
    unfolding default_config bullet_line_signals bullet_line_structure total_matches_Nil
    by (simp add: clarity_total_def DEFAULT_SCORING_CONFIG_def safeRound_def math_round_def)
qed

text \<open>
  Claim C5, at the failing input. \<open>calculateClarity\<close> is called twice on the text
  \<open>"- abc"\<close>, starting from the freshly loaded module. The first call finds the bullet
  at index 0, adds the structure bonus and leaves \<open>lastIndex = 2\<close> in the bullet pattern;
  the second call searches from index 2, finds no bullet, and scores 0.50 instead of
  0.55. \<open>draftFromText\<close> stores that score, so two drafts of the same prompt differ in
  \<open>metrics.clarity\<close>.
\<close>

theorem second_call_scores_differently:
  "fst (calculateClarity module_loaded bullet_line None) = 11 / 20 \<and>
   fst (calculateClarity (snd (calculateClarity module_loaded bullet_line None)) bullet_line None)
     = 1 / 2 \<and>
   map_option clarity (metrics (fst (draftFromText module_loaded bullet_line None)))
     = Some (Some (11 / 20)) \<and>
   map_option clarity (metrics (fst (draftFromText
       (snd (draftFromText module_loaded bullet_line None)) bullet_line None)))
     = Some (Some (1 / 2))"
  by (simp add: draftFromText_clarity draft_joined_bullet_line bullet_line_first bullet_line_second)

text \<open>
  A pattern that matches nowhere in a text fails from every \<open>lastIndex\<close>, so a text
  without any structure marker has no structure in every state.
\<close>

lemma exec_suffix_none:
  "exec r prev s = None \<Longrightarrow> i \<le> length s \<Longrightarrow>
     exec r (if i = 0 then prev else Some (s ! (i - 1))) (drop i s) = None"
proof (induction s arbitrary: prev i)
  case Nil
  then show ?case by simp
next
  case (Cons c cs)
  show ?case
  proof (cases i)
    case 0
    with Cons.prems show ?thesis by simp
  next
    case (Suc j)
    from Cons.prems(1) have rest: "exec r (Some c) cs = None"
      by (simp split: list.splits)
    from Cons.prems(2) Suc have "j \<le> length cs" by simp
    from Cons.IH[OF rest this] show ?thesis
      using Suc by (cases j) simp_all
  qed
qed

lemma test_g_none:
  assumes "exec r None s = None"
  shows "test_g r i s = (False, 0)"
proof (cases "i > length s")
  case True
  then show ?thesis by (simp add: test_g_def)
next
  case False
  then have "exec r (prev_at s i) (drop i s) = None"
    using exec_suffix_none[OF assms, of i] by (simp add: prev_at_def)
  with False show ?thesis by (simp add: test_g_def)
qed

lemma structure_some_none:
  assumes "exec structure_bullets None s = None" "exec structure_numbered None s = None"
    "exec structure_headers None s = None" "exec structure_sequence None s = None"
  shows "structure_some st s = (False, module_loaded)"
  unfolding structure_some_def Let_def
  by (simp add: test_g_none[OF assms(1)] test_g_none[OF assms(2)] test_g_none[OF assms(3)]
      test_g_none[OF assms(4)] module_loaded_def)

lemma vague_penalty_exact:
  "vague_penalty config text =
     min (real (count_matching VAGUE_WORDS text) * vagueWordPenalty config) (maxVagueWordPenalty config)"
  by (simp add: vague_penalty_def Let_def)

lemma count_matching_mono:
  "(\<forall>rx\<in>set ps. test rx a \<longrightarrow> test rx b) \<Longrightarrow> count_matching ps a \<le> count_matching ps b"
  unfolding count_matching_def
  by (induction ps) auto

lemma safeRound_mono: "x \<le> y \<Longrightarrow> safeRound x \<le> safeRound y"
  unfolding safeRound_def math_round_def
  by (simp add: divide_right_mono floor_mono)

lemma calculateClarity_nonneg: "0 \<le> fst (calculateClarity st text dmn)"
  using calculateClarity_shape[of st "text" dmn] safeRound_clamp(1) by auto

lemma calculateClarity_caught:
  assumes "3 \<le> length text" and "getDomainPatterns dmn = Inl e"
  shows "fst (calculateClarity st text dmn) = 1 / 2"
  using assms unfolding calculateClarity_def Let_def
  by (simp add: clarity_cfg_base)

lemma calculateClarity_short:
  "length text < 3 \<Longrightarrow> calculateClarity st text dmn = (0, st)"
  by (simp add: calculateClarity_def)

text \<open>
  The score is antitone in the vague-language penalty, and the penalty is monotone in
  the number of vague patterns that match.
\<close>

lemma clamp_mono: "x \<le> y \<Longrightarrow> max 0 (min 1 x) \<le> max (0::real) (min 1 y)"
  by (auto simp: max_def min_def)

lemma clarity_total_mono:
  "vp \<le> vp' \<Longrightarrow> clarity_total config vp' cc nm vc sp hs qm dm \<le> clarity_total config vp cc nm vc sp hs qm dm"
  by (simp add: clarity_total_def)

lemma calculateClarity_signals:
  assumes "3 \<le> length text" and "getDomainPatterns dmn = Inr ps"
    and "other_signals st text dmn = (cc, nm, vc, sp, hs, qm, dm)"
  shows "fst (calculateClarity st text dmn) =
    safeRound (max 0 (min 1 (clarity_total (clarity_cfg (getScoringConfig dmn))
        (vague_penalty (clarity_cfg (getScoringConfig dmn)) text) cc nm vc sp hs qm dm)))"
  using assms(3) unfolding calculateClarity_total[OF assms(1,2)] other_signals_def assms(2)
  by simp

lemma monotone_in_vague_terms:
  assumes len: "3 \<le> length base"
    and vague: "\<forall>rx\<in>set VAGUE_WORDS. test rx base \<longrightarrow> test rx extended"
    and same: "other_signals st' extended dmn = other_signals st base dmn"
  shows "fst (calculateClarity st' extended dmn) \<le> fst (calculateClarity st base dmn)"
proof (cases "length extended < 3")
  case True
  then show ?thesis
    using calculateClarity_nonneg[of st base dmn] by (simp add: calculateClarity_short)
next
  case False
  then have len': "3 \<le> length extended" by simp
  show ?thesis
  proof (cases "getDomainPatterns dmn")
    case (Inl e)
    show ?thesis
      by (simp add: calculateClarity_caught[OF len Inl] calculateClarity_caught[OF len' Inl])
  next
    case (Inr ps)
    obtain cc nm vc sp hs qm dm where s: "other_signals st base dmn = (cc, nm, vc, sp, hs, qm, dm)"
      by (metis prod_cases7)
    let ?cfg = "clarity_cfg (getScoringConfig dmn)"
    have "count_matching VAGUE_WORDS base \<le> count_matching VAGUE_WORDS extended"
      using vague by (rule count_matching_mono)
    then have "real (count_matching VAGUE_WORDS base) * (1 / 20)
               \<le> real (count_matching VAGUE_WORDS extended) * (1 / 20)"
      by simp
    then have "vague_penalty ?cfg base \<le> vague_penalty ?cfg extended"
      unfolding vague_penalty_exact clarity_cfg_vague
      by (rule min.mono) simp
    then have "clarity_total ?cfg (vague_penalty ?cfg extended) cc nm vc sp hs qm dm
               \<le> clarity_total ?cfg (vague_penalty ?cfg base) cc nm vc sp hs qm dm"
      by (rule clarity_total_mono)
    then have "safeRound (max 0 (min 1 (clarity_total ?cfg (vague_penalty ?cfg extended) cc nm vc sp hs qm dm)))
               \<le> safeRound (max 0 (min 1 (clarity_total ?cfg (vague_penalty ?cfg base) cc nm vc sp hs qm dm)))"
      by (intro safeRound_mono clamp_mono)
    then show ?thesis
      using calculateClarity_signals[OF len Inr s]
            calculateClarity_signals[OF len' Inr same[unfolded s]] by simp
  qed
qed

text \<open>
  For every domain the bonuses and penalties are bounded, so the sum stays below 1 once
  the vague-language penalty is at least 0.2, and above 0 always: the clamp does not
  hide a step of 0.05 in the penalty, and neither does the rounding.
\<close>

lemma clarity_cfg_ranges:
  "0 \<le> clarityIndicatorBonus (clarity_cfg (getScoringConfig dmn))"
  "maxClarityIndicatorBonus (clarity_cfg (getScoringConfig dmn)) = 3 / 20"
  "0 \<le> measurementBonus (clarity_cfg (getScoringConfig dmn))"
  "0 \<le> maxMeasurementBonus (clarity_cfg (getScoringConfig dmn))"
  "maxMeasurementBonus (clarity_cfg (getScoringConfig dmn)) \<le> 3 / 20"
  "0 \<le> verbBonus (clarity_cfg (getScoringConfig dmn))"
  "0 \<le> maxVerbBonus (clarity_cfg (getScoringConfig dmn))"
  "maxVerbBonus (clarity_cfg (getScoringConfig dmn)) \<le> 3 / 20"
  "0 \<le> structureBonus (clarity_cfg (getScoringConfig dmn))"
  "structureBonus (clarity_cfg (getScoringConfig dmn)) \<le> 2 / 25"
  "longSentencePenalty1 (clarity_cfg (getScoringConfig dmn)) = 1 / 20"
  "longSentencePenalty2 (clarity_cfg (getScoringConfig dmn)) = 1 / 10"
  by (simp_all add: getScoringConfig_def DEFAULT_SCORING_CONFIG_def Let_def split: option.split)

lemma long_sentence_penalty_range:
  "0 \<le> long_sentence_penalty (clarity_cfg (getScoringConfig dmn)) text"
  "long_sentence_penalty (clarity_cfg (getScoringConfig dmn)) text \<le> 3 / 20"
  by (simp_all add: long_sentence_penalty_def Let_def clarity_cfg_ranges)

lemma capped_bonus_range:
  assumes "0 \<le> b" "0 \<le> m" "m \<le> u"
  shows "0 \<le> min (real n * b) m" "min (real n * b) m \<le> u"
  using assms by (simp_all add: min_le_iff_disj)

lemma clarity_total_range:
  assumes "0 \<le> sp" "sp \<le> 3 / 20"
  shows "1 / 2 - vp - 3 / 20 \<le> clarity_total (clarity_cfg (getScoringConfig dmn)) vp cc nm vc sp hs qm dm"
    and "clarity_total (clarity_cfg (getScoringConfig dmn)) vp cc nm vc sp hs qm dm \<le> 1 / 2 - vp + 33 / 50"
proof -
  let ?c = "clarity_cfg (getScoringConfig dmn)"
  have a: "0 \<le> min (real cc * clarityIndicatorBonus ?c) (maxClarityIndicatorBonus ?c)"
    "min (real cc * clarityIndicatorBonus ?c) (maxClarityIndicatorBonus ?c) \<le> 3 / 20"
    by (simp_all add: clarity_cfg_ranges min_le_iff_disj)
  have b: "0 \<le> min (real nm * measurementBonus ?c) (maxMeasurementBonus ?c)"
    "min (real nm * measurementBonus ?c) (maxMeasurementBonus ?c) \<le> 3 / 20"
    by (rule capped_bonus_range[OF clarity_cfg_ranges(3,4,5)])+
  have c: "0 \<le> min (real vc * verbBonus ?c) (maxVerbBonus ?c)"
    "min (real vc * verbBonus ?c) (maxVerbBonus ?c) \<le> 3 / 20"
    by (rule capped_bonus_range[OF clarity_cfg_ranges(6,7,8)])+
  have d: "0 \<le> (if hs then structureBonus ?c else 0)" "(if hs then structureBonus ?c else 0) \<le> 2 / 25"
    using clarity_cfg_ranges(9,10)[of dmn] by (cases hs; simp)+
  have e: "0 \<le> (if qm > 0 then min (real qm * 0.02) 0.08 else (0::real))"
    "(if qm > 0 then min (real qm * 0.02) 0.08 else (0::real)) \<le> 2 / 25"
    by (auto simp: min_def)
  have f: "0 \<le> (if dm > 0 then min (real dm * 0.01) 0.05 else (0::real))"
    "(if dm > 0 then min (real dm * 0.01) 0.05 else (0::real)) \<le> 1 / 20"
    by (auto simp: min_def)
  show "1 / 2 - vp - 3 / 20 \<le> clarity_total ?c vp cc nm vc sp hs qm dm"
    unfolding clarity_total_def clarity_cfg_base using a b c d e f assms by linarith
  show "clarity_total ?c vp cc nm vc sp hs qm dm \<le> 1 / 2 - vp + 33 / 50"
    unfolding clarity_total_def clarity_cfg_base using a b c d e f assms by linarith
qed

lemma clarity_total_shift:
  "clarity_total config vp' cc nm vc sp hs qm dm
     = clarity_total config vp cc nm vc sp hs qm dm - (vp' - vp)"
  by (simp add: clarity_total_def)

lemma safeRound_strict: "x + 1 / 100 \<le> y \<Longrightarrow> safeRound x < safeRound y"
proof -
  assume "x + 1 / 100 \<le> y"
  then have "x * 100 + 1 / 2 + 1 \<le> y * 100 + 1 / 2" by simp
  then have "\<lfloor>x * 100 + 1 / 2 + 1\<rfloor> \<le> \<lfloor>y * 100 + 1 / 2\<rfloor>" by (rule floor_mono)
  moreover have "\<lfloor>x * 100 + 1 / 2 + 1\<rfloor> = \<lfloor>x * 100 + 1 / 2\<rfloor> + 1" using floor_add_int[of "x * 100 + 1 / 2" 1] by simp
  ultimately have "\<lfloor>x * 100 + 1 / 2\<rfloor> < \<lfloor>y * 100 + 1 / 2\<rfloor>" by linarith
  then show ?thesis
    unfolding safeRound_def math_round_def by (simp add: divide_strict_right_mono)
qed

lemma strictly_lower_with_four_terms:
  assumes len: "3 \<le> length base" and len': "3 \<le> length extended"
    and dom: "getDomainPatterns dmn = Inr ps"
    and four: "count_matching VAGUE_WORDS extended = count_matching VAGUE_WORDS base + 4"
    and below: "count_matching VAGUE_WORDS base < 5"
    and same: "other_signals st' extended dmn = other_signals st base dmn"
  shows "fst (calculateClarity st' extended dmn) < fst (calculateClarity st base dmn)"
proof -
  obtain cc nm vc sp hs qm dm where s: "other_signals st base dmn = (cc, nm, vc, sp, hs, qm, dm)"
    by (metis prod_cases7)
  let ?cfg = "clarity_cfg (getScoringConfig dmn)"
  let ?n = "count_matching VAGUE_WORDS base"
  have sp: "0 \<le> sp" "sp \<le> 3 / 20"
    using s long_sentence_penalty_range[of dmn base] by (simp_all add: other_signals_def)
  have vp: "vague_penalty ?cfg base = real ?n / 20"
    unfolding vague_penalty_exact clarity_cfg_vague using below by (simp add: min_def)
  have vp': "vague_penalty ?cfg extended = min (real ?n / 20 + 1 / 5) (1 / 4)"
    unfolding vague_penalty_exact clarity_cfg_vague four by (simp add: add_divide_distrib)
  have step: "vague_penalty ?cfg base + 1 / 20 \<le> vague_penalty ?cfg extended"
    and high: "1 / 5 \<le> vague_penalty ?cfg extended"
    and cap: "vague_penalty ?cfg extended \<le> 1 / 4"
    unfolding vp vp' using below by (simp_all add: min_def)
  let ?T = "clarity_total ?cfg (vague_penalty ?cfg base) cc nm vc sp hs qm dm"
  let ?T' = "clarity_total ?cfg (vague_penalty ?cfg extended) cc nm vc sp hs qm dm"
  have shift: "?T' + 1 / 20 \<le> ?T"
    using step by (simp add: clarity_total_def)
  have lo: "0 \<le> ?T'"
    using clarity_total_range(1)[OF sp, of "vague_penalty ?cfg extended" dmn cc nm vc hs qm dm] cap
    by linarith
  have hi: "?T' \<le> 24 / 25"
    using clarity_total_range(2)[OF sp, of dmn "vague_penalty ?cfg extended" cc nm vc hs qm dm] high
    by linarith
  have "max 0 (min 1 ?T') + 1 / 100 \<le> max 0 (min 1 ?T)"
    using shift lo hi by (auto simp: max_def min_def)
  then have "safeRound (max 0 (min 1 ?T')) < safeRound (max 0 (min 1 ?T))"
    by (rule safeRound_strict)
  then show ?thesis
    using calculateClarity_signals[OF len dom s]
          calculateClarity_signals[OF len' dom same[unfolded s]] by simp
qed

text \<open>The signals of the concrete texts, in every state of the pattern objects.\<close>

lemma length_texts:
  "length short_base = 2" "3 \<le> length short_extended" "3 \<le> length vague_phrase"
  "3 \<le> length vague_phrase_removed" "3 \<le> length capped_with" "3 \<le> length capped_without"
  by (simp_all add: short_base_def short_extended_def vague_phrase_def vague_phrase_removed_def
      capped_with_def capped_without_def ascii_def)

lemma short_extended_vague: "count_matching VAGUE_WORDS short_extended = 1"
  by (simp add: short_extended_def count_matching_def VAGUE_WORDS_def text_defs rx_defs)

lemma short_extended_counts:
  "count_matching CLARITY_INDICATORS short_extended = 0"
  "total_matches MEASUREMENT_PATTERNS short_extended = 0"
  "count_matching CONCRETE_VERBS short_extended = 0"
  "match_count QUESTION_WORDS short_extended = 0"
  "long_sentence_penalty (clarity_cfg DEFAULT_SCORING_CONFIG) short_extended = 0"
  by (simp_all add: short_extended_def signal_defs pattern_defs DEFAULT_SCORING_CONFIG_def text_defs rx_defs)

lemma short_extended_structure: "structure_some st short_extended = (False, module_loaded)"
  by (rule structure_some_none)
     (simp_all add: short_extended_def pattern_defs text_defs rx_defs)

lemma short_extended_signals: "other_signals st short_extended None = (0, 0, 0, 0, False, 0, 0)"
  unfolding other_signals_def default_config no_domain_patterns short_extended_counts short_extended_structure
  by (simp add: total_matches_Nil)

lemma vague_phrase_vague: "count_matching VAGUE_WORDS vague_phrase = 4"
  by (simp add: vague_phrase_def count_matching_def VAGUE_WORDS_def text_defs rx_defs)

lemma vague_phrase_counts:
  "count_matching CLARITY_INDICATORS vague_phrase = 0"
  "total_matches MEASUREMENT_PATTERNS vague_phrase = 0"
  "count_matching CONCRETE_VERBS vague_phrase = 0"
  "match_count QUESTION_WORDS vague_phrase = 0"
  "long_sentence_penalty (clarity_cfg DEFAULT_SCORING_CONFIG) vague_phrase = 0"
  by (simp_all add: vague_phrase_def signal_defs pattern_defs DEFAULT_SCORING_CONFIG_def text_defs rx_defs)

lemma vague_phrase_structure: "structure_some st vague_phrase = (False, module_loaded)"
  by (rule structure_some_none)
     (simp_all add: vague_phrase_def pattern_defs text_defs rx_defs)

lemma vague_phrase_signals: "other_signals st vague_phrase None = (0, 0, 0, 0, False, 0, 0)"
  unfolding other_signals_def default_config no_domain_patterns vague_phrase_counts vague_phrase_structure
  by (simp add: total_matches_Nil)

lemma vague_phrase_removed_vague: "count_matching VAGUE_WORDS vague_phrase_removed = 0"
  by (simp add: vague_phrase_removed_def count_matching_def VAGUE_WORDS_def text_defs rx_defs)

lemma vague_phrase_removed_counts:
  "count_matching CLARITY_INDICATORS vague_phrase_removed = 0"
  "total_matches MEASUREMENT_PATTERNS vague_phrase_removed = 0"
  "count_matching CONCRETE_VERBS vague_phrase_removed = 0"
  "match_count QUESTION_WORDS vague_phrase_removed = 0"
  "long_sentence_penalty (clarity_cfg DEFAULT_SCORING_CONFIG) vague_phrase_removed = 0"
  by (simp_all add: vague_phrase_removed_def signal_defs pattern_defs DEFAULT_SCORING_CONFIG_def text_defs rx_defs)

lemma vague_phrase_removed_structure: "structure_some st vague_phrase_removed = (False, module_loaded)"
  by (rule structure_some_none)
     (simp_all add: vague_phrase_removed_def pattern_defs text_defs rx_defs)

lemma vague_phrase_removed_signals: "other_signals st vague_phrase_removed None = (0, 0, 0, 0, False, 0, 0)"
  unfolding other_signals_def default_config no_domain_patterns vague_phrase_removed_counts vague_phrase_removed_structure
  by (simp add: total_matches_Nil)

lemma capped_with_vague: "count_matching VAGUE_WORDS capped_with = 9"
  by (simp add: capped_with_def count_matching_def VAGUE_WORDS_def text_defs rx_defs)

lemma capped_with_counts:
  "count_matching CLARITY_INDICATORS capped_with = 0"
  "total_matches MEASUREMENT_PATTERNS capped_with = 0"
  "count_matching CONCRETE_VERBS capped_with = 0"
  "match_count QUESTION_WORDS capped_with = 0"
  "long_sentence_penalty (clarity_cfg DEFAULT_SCORING_CONFIG) capped_with = 0"
  by (simp_all add: capped_with_def signal_defs pattern_defs DEFAULT_SCORING_CONFIG_def text_defs rx_defs)

lemma capped_with_structure: "structure_some st capped_with = (False, module_loaded)"
  by (rule structure_some_none)
     (simp_all add: capped_with_def pattern_defs text_defs rx_defs)

lemma capped_with_signals: "other_signals st capped_with None = (0, 0, 0, 0, False, 0, 0)"
  unfolding other_signals_def default_config no_domain_patterns capped_with_counts capped_with_structure
  by (simp add: total_matches_Nil)

lemma capped_without_vague: "count_matching VAGUE_WORDS capped_without = 5"
  by (simp add: capped_without_def count_matching_def VAGUE_WORDS_def text_defs rx_defs)

lemma capped_without_counts:
  "count_matching CLARITY_INDICATORS capped_without = 0"
  "total_matches MEASUREMENT_PATTERNS capped_without = 0"
  "count_matching CONCRETE_VERBS capped_without = 0"
  "match_count QUESTION_WORDS capped_without = 0"
  "long_sentence_penalty (clarity_cfg DEFAULT_SCORING_CONFIG) capped_without = 0"
  by (simp_all add: capped_without_def signal_defs pattern_defs DEFAULT_SCORING_CONFIG_def text_defs rx_defs)

lemma capped_without_structure: "structure_some st capped_without = (False, module_loaded)"
  by (rule structure_some_none)
     (simp_all add: capped_without_def pattern_defs text_defs rx_defs)

lemma capped_without_signals: "other_signals st capped_without None = (0, 0, 0, 0, False, 0, 0)"
  unfolding other_signals_def default_config no_domain_patterns capped_without_counts capped_without_structure
  by (simp add: total_matches_Nil)

lemma short_base_vague: "count_matching VAGUE_WORDS short_base = 0"
  by (simp add: short_base_def count_matching_def VAGUE_WORDS_def text_defs rx_defs)

lemma short_base_counts:
  "count_matching CLARITY_INDICATORS short_base = 0"
  "total_matches MEASUREMENT_PATTERNS short_base = 0"
  "count_matching CONCRETE_VERBS short_base = 0"
  "match_count QUESTION_WORDS short_base = 0"
  "long_sentence_penalty (clarity_cfg DEFAULT_SCORING_CONFIG) short_base = 0"
  by (simp_all add: short_base_def signal_defs pattern_defs DEFAULT_SCORING_CONFIG_def text_defs rx_defs)

lemma short_base_structure: "structure_some st short_base = (False, module_loaded)"
  by (rule structure_some_none)
     (simp_all add: short_base_def pattern_defs text_defs rx_defs)

lemma short_base_signals: "other_signals st short_base None = (0, 0, 0, 0, False, 0, 0)"
  unfolding other_signals_def default_config no_domain_patterns short_base_counts short_base_structure
  by (simp add: total_matches_Nil)

lemma clarity_plain_text:
  assumes "3 \<le> length text" and "other_signals st text None = (0, 0, 0, 0, False, 0, 0)"
    and "count_matching VAGUE_WORDS text = n"
  shows "fst (calculateClarity st text None) =
           safeRound (max 0 (min 1 (1 / 2 - min (real n / 20) (1 / 4))))"
  unfolding calculateClarity_signals[OF assms(1) no_domain_patterns assms(2)]
    vague_penalty_exact assms(3) default_config
  by (simp add: clarity_total_def DEFAULT_SCORING_CONFIG_def)

lemma clarity_of_texts:
  "fst (calculateClarity st short_base None) = 0"
  "fst (calculateClarity st short_extended None) = 9 / 20"
  "fst (calculateClarity st vague_phrase None) = 3 / 10"
  "fst (calculateClarity st vague_phrase_removed None) = 1 / 2"
  "fst (calculateClarity st capped_with None) = 1 / 4"
  "fst (calculateClarity st capped_without None) = 1 / 4"
proof -
  show "fst (calculateClarity st short_base None) = 0"
    by (simp add: calculateClarity_short length_texts)
  show "fst (calculateClarity st short_extended None) = 9 / 20"
    unfolding clarity_plain_text[OF length_texts(2) short_extended_signals short_extended_vague]
    by (simp add: safeRound_def math_round_def)
  show "fst (calculateClarity st vague_phrase None) = 3 / 10"
    unfolding clarity_plain_text[OF length_texts(3) vague_phrase_signals vague_phrase_vague]
    by (simp add: safeRound_def math_round_def)
  show "fst (calculateClarity st vague_phrase_removed None) = 1 / 2"
    unfolding clarity_plain_text[OF length_texts(4) vague_phrase_removed_signals vague_phrase_removed_vague]
    by (simp add: safeRound_def math_round_def)
  show "fst (calculateClarity st capped_with None) = 1 / 4"
    unfolding clarity_plain_text[OF length_texts(5) capped_with_signals capped_with_vague]
    by (simp add: safeRound_def math_round_def)
  show "fst (calculateClarity st capped_without None) = 1 / 4"
    unfolding clarity_plain_text[OF length_texts(6) capped_without_signals capped_without_vague]
    by (simp add: safeRound_def math_round_def)
qed

lemma vague_phrase_extends:
  "\<forall>rx\<in>set VAGUE_WORDS. test rx vague_phrase_removed \<longrightarrow> test rx vague_phrase"
  by (simp add: VAGUE_WORDS_def vague_phrase_removed_def text_defs rx_defs)

lemma inherited_domain:
  "getDomainPatterns (Some (ascii ''toString'')) = Inl Inherited_property"
  "getScoringConfig (Some (ascii ''toString'')) = DEFAULT_SCORING_CONFIG"
  by (simp_all add: getDomainPatterns_def getScoringConfig_def DOMAIN_PATTERNS_def
      object_prototype_keys_def ascii_def Let_def)

lemma inherited_domain_signals:
  "other_signals st vague_phrase (Some (ascii ''toString'')) = (0, 0, 0, 0, False, 0, 0)"
  "other_signals st vague_phrase_removed (Some (ascii ''toString'')) = (0, 0, 0, 0, False, 0, 0)"
  unfolding other_signals_def inherited_domain vague_phrase_counts vague_phrase_structure
    vague_phrase_removed_counts vague_phrase_removed_structure
  by simp_all

text \<open>
  Claim C7, as amended. Take a base text of at least three code units and an extended
  text, with all clarity signals other than the vague-language penalty the same for
  both (in whatever states the pattern objects are). If every vague pattern found in
  the base text is still found in the extended one, the clarity of the extended text
  is at most that of the base text. If the extended text matches four vague patterns
  more than the base text, the base text matches fewer than five, and the domain
  lookup yields a pattern list, the clarity of the extended text is strictly lower.
  So it is for \<open>"very good and quite nice solution"\<close> (0.30) against \<open>"and solution"\<close>
  (0.50).
\<close>

theorem vague_term_never_raises_clarity:
  "(3 \<le> length base \<and>
    (\<forall>rx\<in>set VAGUE_WORDS. test rx base \<longrightarrow> test rx extended) \<and>
    other_signals st' extended dmn = other_signals st base dmn
    \<longrightarrow> fst (calculateClarity st' extended dmn) \<le> fst (calculateClarity st base dmn)) \<and>
   (3 \<le> length base \<and> 3 \<le> length extended \<and>
    getDomainPatterns dmn = Inr ps \<and>
    count_matching VAGUE_WORDS extended = count_matching VAGUE_WORDS base + 4 \<and>
    count_matching VAGUE_WORDS base < 5 \<and>
    other_signals st' extended dmn = other_signals st base dmn
    \<longrightarrow> fst (calculateClarity st' extended dmn) < fst (calculateClarity st base dmn)) \<and>
   fst (calculateClarity st' vague_phrase None) < fst (calculateClarity st vague_phrase_removed None)"
  using monotone_in_vague_terms[of base extended st' dmn st]
    strictly_lower_with_four_terms[of base extended dmn ps st' st]
  by (simp add: clarity_of_texts)

theorem vague_term_never_raises_clarity_witness:
  "3 \<le> length vague_phrase_removed \<and> 3 \<le> length vague_phrase \<and>
   getDomainPatterns None = Inr [] \<and>
   count_matching VAGUE_WORDS vague_phrase_removed = 0 \<and>
   count_matching VAGUE_WORDS vague_phrase = 4 \<and>
   other_signals module_loaded vague_phrase None = other_signals module_loaded vague_phrase_removed None \<and>
   fst (calculateClarity module_loaded vague_phrase None)
     \<le> fst (calculateClarity module_loaded vague_phrase_removed None) \<and>
   fst (calculateClarity module_loaded vague_phrase None)
     < fst (calculateClarity module_loaded vague_phrase_removed None)"
  using vague_term_never_raises_clarity[of vague_phrase_removed vague_phrase module_loaded None
      module_loaded "[]"]
    length_texts(3,4) vague_phrase_extends no_domain_patterns
  by (simp add: vague_phrase_signals vague_phrase_removed_signals vague_phrase_vague
      vague_phrase_removed_vague)

text \<open>
  Claim C7 as stated, refuted. The base text \<open>"ab"\<close> is shorter than the minimum length
  and scores 0; with the vague term \<open>good\<close> added it scores 0.45, all other signals being
  equal. A text that contains \<open>"very good and quite nice solution"\<close> next to five other
  vague terms scores 0.25 with and without those four terms, because the penalty is
  capped at 0.25: not strictly lower. And under a domain name that the pattern table
  inherits, the error handler returns 0.50 for both texts of the scenario.
\<close>

theorem short_or_capped_text_breaks_claim:
  "count_matching VAGUE_WORDS short_base = 0 \<and>
   count_matching VAGUE_WORDS short_extended = 1 \<and>
   other_signals module_loaded short_extended None = other_signals module_loaded short_base None \<and>
   fst (calculateClarity module_loaded short_base None) = 0 \<and>
   fst (calculateClarity module_loaded short_extended None) = 9 / 20 \<and>
   \<not> fst (calculateClarity module_loaded short_extended None)
       \<le> fst (calculateClarity module_loaded short_base None) \<and>
   count_matching VAGUE_WORDS capped_without = 5 \<and>
   count_matching VAGUE_WORDS capped_with = 9 \<and>
   other_signals module_loaded capped_with None = other_signals module_loaded capped_without None \<and>
   \<not> fst (calculateClarity module_loaded capped_with None)
       < fst (calculateClarity module_loaded capped_without None) \<and>
   other_signals module_loaded vague_phrase (Some (ascii ''toString''))
     = other_signals module_loaded vague_phrase_removed (Some (ascii ''toString'')) \<and>
   \<not> fst (calculateClarity module_loaded vague_phrase (Some (ascii ''toString'')))
       < fst (calculateClarity module_loaded vague_phrase_removed (Some (ascii ''toString'')))"
  by (simp add: clarity_of_texts short_base_vague short_extended_vague capped_with_vague
      capped_without_vague short_base_signals short_extended_signals capped_with_signals
      capped_without_signals inherited_domain_signals
      calculateClarity_caught[OF length_texts(3) inherited_domain(1)]
      calculateClarity_caught[OF length_texts(4) inherited_domain(1)])

end
